theory Spec2Isabelle
  imports Complex_Main "HOL-Library.Multiset"
begin

section \<open>Python values\<close>

text \<open>
  The exceptions the modelled code can raise. Every fallible operation returns
  \<open>error + 'a\<close>, with \<open>Inl\<close> for the exception.
\<close>

datatype error = KeyError | IndexError | ValueError | AssertionError | ZeroDivisionError

text \<open>
  A double-precision value of a numpy array: NaN (the "undefined" marker) or a finite
  value. Finite values are taken as real numbers: rounding and the infinities are not
  part of this model.
\<close>

datatype f8 = NaN | Fin real

fun isnan :: "f8 \<Rightarrow> bool" where
  "isnan NaN = True"
| "isnan (Fin _) = False"

text \<open>\<open>xs[i]\<close>: a negative index counts from the end, an index out of range raises.\<close>

definition py_index :: "'a list \<Rightarrow> int \<Rightarrow> error + 'a" where
  "py_index xs i =
     (if 0 \<le> i \<and> i < int (length xs) then Inr (xs ! nat i)
      else if i < 0 \<and> - int (length xs) \<le> i then Inr (xs ! nat (int (length xs) + i))
      else Inl IndexError)"

text \<open>\<open>xs[lo:hi]\<close>: negative bounds count from the end, then both are clamped.\<close>

definition slice_bound :: "int \<Rightarrow> int \<Rightarrow> nat" where
  "slice_bound n i = nat (if i < 0 then max (n + i) 0 else min i n)"

definition py_slice :: "'a list \<Rightarrow> int \<Rightarrow> int \<Rightarrow> 'a list" where
  "py_slice xs lo hi =
     (let n = int (length xs); l = slice_bound n lo; h = slice_bound n hi
      in take (h - l) (drop l xs))"

text \<open>\<open>d[k]\<close> on a dict, held as an association list in insertion order.\<close>

definition dict_get :: "('k \<times> 'v) list \<Rightarrow> 'k \<Rightarrow> error + 'v" where
  "dict_get d k = (case map_of d k of None \<Rightarrow> Inl KeyError | Some v \<Rightarrow> Inr v)"

text \<open>\<open>range(a, b)\<close> over integers.\<close>

definition py_range :: "int \<Rightarrow> int \<Rightarrow> int list" where
  "py_range a b = [a..b - 1]"

text \<open>
  A Python set of integers is held as the list of its elements, each once.
  \<open>s |= set(xs)\<close> adds the elements of \<open>xs\<close> that \<open>s\<close> does not hold yet.
\<close>

definition py_set_ior :: "int list \<Rightarrow> int list \<Rightarrow> int list" where
  "py_set_ior s xs = List.union xs s"

section \<open>tid/dense\_data.py: the dense observation rows\<close>

text \<open>One row of \<open>DENSE_TYPE\<close>, field by field.\<close>

record dense_row =
  tick :: int
  C1C :: f8
  C2C :: f8
  C2P :: f8
  C5C :: f8
  L1C :: f8
  L2C :: f8
  L5C :: f8
  recv_time_sec :: f8
  recv_time_week :: int
  sat_clock_err :: f8
  sat_pos :: "f8 \<times> f8 \<times> f8"
  sat_vel :: "f8 \<times> f8 \<times> f8"
  sat_pos_final :: "f8 \<times> f8 \<times> f8"
  is_processed :: bool
  is_corrected :: bool

section \<open>tid/connections.py: Connection\<close>

text \<open>
  Of the owning scenario a connection reads \<open>station_data\<close>: a dict from station name
  to a dict from satellite id to that pair's array of rows.
\<close>

record scenario =
  station_data :: "(string \<times> (string \<times> dense_row list) list) list"

record connection =
  scenario :: scenario
  station :: string
  prn :: string
  idx_start :: int
  idx_end :: int
  tick_start :: int
  tick_end :: int
  missing_ticks :: "int list"
  n_chan1 :: "int option"
  n_chan2 :: "int option"
  offset :: "f8 option"
  offset_error :: "f8 option"

text \<open>
  The property \<open>observations\<close>: \<open>assert self.scenario.station_data\<close> (an empty dict is
  false), then the slice \<open>[idx_start : idx_end + 1]\<close> of the pair's array.
\<close>

definition observations :: "connection \<Rightarrow> error + dense_row list" where
  "observations c =
     (if station_data (scenario c) = [] then Inl AssertionError
      else case dict_get (station_data (scenario c)) (station c) of
        Inl e \<Rightarrow> Inl e
      | Inr by_prn \<Rightarrow>
          (case dict_get by_prn (prn c) of
            Inl e \<Rightarrow> Inl e
          | Inr arr \<Rightarrow> Inr (py_slice arr (idx_start c) (idx_end c + 1))))"

text \<open>
  The tick column holds signed 4-byte integers (\<open>"i4"\<close>), and \<open>numpy.diff\<close> subtracts
  neighbours in that type: a difference outside \<open>[-2\<^sup>3\<^sup>1, 2\<^sup>3\<^sup>1)\<close> wraps around.
\<close>

definition wrap_i4 :: "int \<Rightarrow> int" where
  "wrap_i4 d = (d + 2147483648) mod 4294967296 - 2147483648"

definition numpy_diff :: "int list \<Rightarrow> int list" where
  "numpy_diff xs = map (\<lambda>(a, b). wrap_i4 (b - a)) (zip xs (tl xs))"

text \<open>\<open>numpy.where(numpy.diff(ticks) > 1)[0]\<close>: the positions followed by a gap.\<close>

definition gap_idxs :: "int list \<Rightarrow> nat list" where
  "gap_idxs ticks =
     filter (\<lambda>g. numpy_diff ticks ! g > 1) [0..<length (numpy_diff ticks)]"

text \<open>Neighbouring ticks less than \<open>2\<^sup>3\<^sup>1\<close> apart: their differences do not wrap.\<close>

definition small_gaps :: "int list \<Rightarrow> bool" where
  "small_gaps ticks \<longleftrightarrow> list_all (\<lambda>(a, b). b - a < 2147483648) (zip ticks (tl ticks))"

text \<open>
  \<open>_init_missing_ticks\<close>: for every gap position, the ticks strictly between the two
  neighbours \<open>first, last = ticks[gap_idx : gap_idx + 2]\<close> are added to the set. A gap
  position is below \<open>length ticks - 1\<close>, so both neighbours exist.
\<close>

definition init_missing_ticks :: "connection \<Rightarrow> error + connection" where
  "init_missing_ticks c =
     (case observations c of
        Inl e \<Rightarrow> Inl e
      | Inr obs \<Rightarrow>
          (let ticks = map tick obs
           in Inr (c\<lparr>missing_ticks :=
                fold (\<lambda>gap_idx m.
                        py_set_ior m (py_range (ticks ! gap_idx + 1) (ticks ! (gap_idx + 1))))
                  (gap_idxs ticks) (missing_ticks c)\<rparr>)))"

text \<open>
  \<open>Connection.__init__\<close>: the two tick lookups
  \<open>scenario.station_data[station][prn][idx]["tick"]\<close> can raise, then the missing
  ticks are filled in and the correction fields start as \<open>None\<close>.
\<close>

definition station_prn_rows :: "scenario \<Rightarrow> string \<Rightarrow> string \<Rightarrow> error + dense_row list" where
  "station_prn_rows scn st p =
     (case dict_get (station_data scn) st of
        Inl e \<Rightarrow> Inl e
      | Inr by_prn \<Rightarrow> dict_get by_prn p)"

definition Connection_init ::
  "scenario \<Rightarrow> string \<Rightarrow> string \<Rightarrow> int \<Rightarrow> int \<Rightarrow> error + connection" where
  "Connection_init scn st p i_start i_end =
     (case station_prn_rows scn st p of
        Inl e \<Rightarrow> Inl e
      | Inr arr \<Rightarrow>
          (case py_index arr i_start of
             Inl e \<Rightarrow> Inl e
           | Inr r_start \<Rightarrow>
               (case py_index arr i_end of
                  Inl e \<Rightarrow> Inl e
                | Inr r_end \<Rightarrow>
                    init_missing_ticks
                      \<lparr>scenario = scn, station = st, prn = p,
                       idx_start = i_start, idx_end = i_end,
                       tick_start = tick r_start, tick_end = tick r_end,
                       missing_ticks = [],
                       n_chan1 = None, n_chan2 = None,
                       offset = None, offset_error = None\<rparr>)))"

text \<open>
  \<open>tick_idx\<close>: \<open>None\<close> for a missing tick; otherwise the guess \<open>tick - tick_start\<close>,
  lowered by one for every element of the set that the tick is greater than.
\<close>

definition tick_idx :: "connection \<Rightarrow> int \<Rightarrow> int option" where
  "tick_idx c t =
     (if t \<in> set (missing_ticks c) then None
      else Some (fold (\<lambda>missing guess. if t > missing then guess - 1 else guess)
                   (missing_ticks c) (t - tick_start c)))"

text \<open>\<open>Connection.__contains__\<close>.\<close>

definition Connection_contains :: "connection \<Rightarrow> int \<Rightarrow> bool" where
  "Connection_contains c t \<longleftrightarrow> tick_start c \<le> t \<and> t \<le> tick_end c"

section \<open>tid/connections.py: ConnTickMap lookup\<close>

type_synonym conn_tick_map = "connection list"

fun ConnTickMap_getitem :: "conn_tick_map \<Rightarrow> int \<Rightarrow> error + connection" where
  "ConnTickMap_getitem [] t = Inl KeyError"
| "ConnTickMap_getitem (con # rest) t =
     (if Connection_contains con t then Inr con else ConnTickMap_getitem rest t)"

section \<open>tid/connections.py: SparseList\<close>

record 'a sparse_list =
  ranges :: "(int \<times> int) list"
  data :: "'a list list"
  tick_lookup :: "(int \<Rightarrow> int option) list"
  default_val :: 'a
  max_val :: int

text \<open>
  \<open>SparseList.__init__\<close>: \<open>self.max = max(i[1] for i in index_ranges)\<close> is computed
  at once, and \<open>max\<close> of an empty sequence raises \<open>ValueError\<close>.
\<close>

definition SparseList_init ::
  "(int \<times> int) list \<Rightarrow> 'a list list \<Rightarrow> (int \<Rightarrow> int option) list \<Rightarrow> 'a
     \<Rightarrow> error + 'a sparse_list" where
  "SparseList_init index_ranges dat lookups dflt =
     (if index_ranges = [] then Inl ValueError
      else Inr \<lparr>ranges = index_ranges, data = dat, tick_lookup = lookups,
                default_val = dflt, max_val = Max (set (map snd index_ranges))\<rparr>)"

definition SparseList_len :: "'a sparse_list \<Rightarrow> int" where
  "SparseList_len s = max_val s + 1"

text \<open>
  \<open>SparseList.__getitem__\<close>: the loop over \<open>zip(self.ranges, self.data, self.tick_lookup)\<close>,
  which stops at the shortest of the three; \<open>datum[idx]\<close> is Python indexing.
\<close>

fun getitem_scan ::
  "((int \<times> int) \<times> 'a list \<times> (int \<Rightarrow> int option)) list \<Rightarrow> 'a \<Rightarrow> int \<Rightarrow> error + 'a" where
  "getitem_scan [] dflt t = Inr dflt"
| "getitem_scan ((data_range, datum, lookup) # rest) dflt t =
     (if fst data_range \<le> t \<and> t \<le> snd data_range
      then (case lookup t of None \<Rightarrow> Inr dflt | Some idx \<Rightarrow> py_index datum idx)
      else getitem_scan rest dflt t)"

definition triples ::
  "'a sparse_list \<Rightarrow> ((int \<times> int) \<times> 'a list \<times> (int \<Rightarrow> int option)) list" where
  "triples s = zip (ranges s) (zip (data s) (tick_lookup s))"

definition SparseList_getitem :: "'a sparse_list \<Rightarrow> int \<Rightarrow> error + 'a" where
  "SparseList_getitem s t = getitem_scan (triples s) (default_val s) t"

text \<open>
  The range test of the scan, and what it means for the ranges of a SparseList not to
  overlap: no two of them (at different positions) hold a common tick.
\<close>

definition in_range :: "int \<times> int \<Rightarrow> int \<Rightarrow> bool" where
  "in_range r t \<longleftrightarrow> fst r \<le> t \<and> t \<le> snd r"

definition ranges_disjoint :: "int \<times> int \<Rightarrow> int \<times> int \<Rightarrow> bool" where
  "ranges_disjoint r1 r2 \<longleftrightarrow>
     snd r1 < fst r2 \<or> snd r2 < fst r1 \<or> snd r1 < fst r1 \<or> snd r2 < fst r2"

fun non_overlapping :: "(int \<times> int) list \<Rightarrow> bool" where
  "non_overlapping [] = True"
| "non_overlapping (r # rs) = (list_all (ranges_disjoint r) rs \<and> non_overlapping rs)"

section \<open>tid/connections.py: the VTEC views of ConnTickMap\<close>

text \<open>
  A list comprehension whose element expression can raise: the first exception ends it.
\<close>

fun collect :: "('a \<Rightarrow> error + 'b) \<Rightarrow> 'a list \<Rightarrow> error + 'b list" where
  "collect f [] = Inr []"
| "collect f (x # xs) =
     (case f x of
        Inl e \<Rightarrow> Inl e
      | Inr y \<Rightarrow> (case collect f xs of Inl e \<Rightarrow> Inl e | Inr ys \<Rightarrow> Inr (y # ys)))"

text \<open>
  \<open>Connection.vtecs\<close> delegates to \<open>tec.calculate_vtecs\<close>, and the filter is
  \<open>util.bpfilter\<close> with the constant \<open>util.BUTTER_MIN_LENGTH\<close>: none of the three is in
  these sources, so the views take them as parameters \<open>vtecs\<close> (the pair of arrays a
  connection yields, or an exception), \<open>bpfilter\<close> and \<open>BUTTER_MIN_LENGTH\<close>.
\<close>

definition vtecs0 ::
  "(connection \<Rightarrow> error + f8 list \<times> f8 list) \<Rightarrow> connection \<Rightarrow> error + f8 list" where
  "vtecs0 vtecs con = (case vtecs con of Inl e \<Rightarrow> Inl e | Inr v \<Rightarrow> Inr (fst v))"

definition get_vtecs ::
  "(connection \<Rightarrow> error + f8 list \<times> f8 list) \<Rightarrow> conn_tick_map \<Rightarrow> error + f8 sparse_list" where
  "get_vtecs vtecs connections =
     (case collect (vtecs0 vtecs) connections of
        Inl e \<Rightarrow> Inl e
      | Inr dat \<Rightarrow>
          SparseList_init (map (\<lambda>con. (tick_start con, tick_end con)) connections)
            dat (map tick_idx connections) (Fin 0))"

fun get_filtered_vtecs_loop ::
  "int \<Rightarrow> (connection \<Rightarrow> error + f8 list \<times> f8 list) \<Rightarrow> (f8 list \<Rightarrow> error + f8 list)
     \<Rightarrow> connection list
     \<Rightarrow> (int \<times> int) list \<times> f8 list list \<times> (int \<Rightarrow> int option) list
     \<Rightarrow> error + (int \<times> int) list \<times> f8 list list \<times> (int \<Rightarrow> int option) list" where
  "get_filtered_vtecs_loop BUTTER_MIN_LENGTH vtecs bpfilter [] acc = Inr acc"
| "get_filtered_vtecs_loop BUTTER_MIN_LENGTH vtecs bpfilter (con # rest)
       (index_ranges, dat, lookups) =
     (if idx_end con - idx_start con < BUTTER_MIN_LENGTH
      then get_filtered_vtecs_loop BUTTER_MIN_LENGTH vtecs bpfilter rest
             (index_ranges, dat, lookups)
      else (case vtecs0 vtecs con of
              Inl e \<Rightarrow> Inl e
            | Inr v \<Rightarrow>
                (case bpfilter v of
                   Inl e \<Rightarrow> Inl e
                 | Inr filtered \<Rightarrow>
                     get_filtered_vtecs_loop BUTTER_MIN_LENGTH vtecs bpfilter rest
                       (index_ranges @ [(tick_start con, tick_end con)],
                        dat @ [filtered],
                        lookups @ [tick_idx con]))))"

definition get_filtered_vtecs ::
  "int \<Rightarrow> (connection \<Rightarrow> error + f8 list \<times> f8 list) \<Rightarrow> (f8 list \<Rightarrow> error + f8 list)
     \<Rightarrow> conn_tick_map \<Rightarrow> error + f8 sparse_list" where
  "get_filtered_vtecs BUTTER_MIN_LENGTH vtecs bpfilter connections =
     (case get_filtered_vtecs_loop BUTTER_MIN_LENGTH vtecs bpfilter connections ([], [], []) of
        Inl e \<Rightarrow> Inl e
      | Inr (index_ranges, dat, lookups) \<Rightarrow>
          SparseList_init index_ranges dat lookups (Fin 0))"

text \<open>
  The connections the loop of \<open>get_filtered_vtecs\<close> does not skip, and what it stores
  for one of them.
\<close>

definition long_enough :: "int \<Rightarrow> connection \<Rightarrow> bool" where
  "long_enough BUTTER_MIN_LENGTH con \<longleftrightarrow> \<not> idx_end con - idx_start con < BUTTER_MIN_LENGTH"

definition filtered_vtecs0 ::
  "(connection \<Rightarrow> error + f8 list \<times> f8 list) \<Rightarrow> (f8 list \<Rightarrow> error + f8 list)
     \<Rightarrow> connection \<Rightarrow> error + f8 list" where
  "filtered_vtecs0 vtecs bpfilter con =
     (case vtecs0 vtecs con of Inl e \<Rightarrow> Inl e | Inr v \<Rightarrow> bpfilter v)"

text \<open>
  The sample count of a connection: the number of rows of its observation slice
  (0 when the slice cannot be read).
\<close>

definition sample_count :: "connection \<Rightarrow> int" where
  "sample_count con = (case observations con of Inl e \<Rightarrow> 0 | Inr obs \<Rightarrow> int (length obs))"

section \<open>tid/connections.py: carrier corrections\<close>

text \<open>\<open>tec.C\<close> is \<open>laika.constants.SPEED_OF_LIGHT\<close>, in metres per second.\<close>

definition C :: real where
  "C = 299792458"

text \<open>
  The property \<open>frequencies\<close>: \<open>scenario.get_frequencies\<close> is not in these sources and
  is the parameter \<open>get_frequencies\<close>; its answer \<open>None\<close> fails the assertion.
\<close>

definition frequencies ::
  "(string \<Rightarrow> dense_row list \<Rightarrow> (real \<times> real) option) \<Rightarrow> connection \<Rightarrow> error + real \<times> real" where
  "frequencies get_frequencies c =
     (case observations c of
        Inl e \<Rightarrow> Inl e
      | Inr obs \<Rightarrow>
          (case get_frequencies (prn c) obs of
             None \<Rightarrow> Inl AssertionError
           | Some fs \<Rightarrow> Inr fs))"

text \<open>
  The property \<open>carrier_correction_meters\<close>. The frequencies are Python floats, so a
  zero frequency raises \<open>ZeroDivisionError\<close> in \<open>n / f\<close>.
\<close>

definition carrier_correction_meters ::
  "(string \<Rightarrow> dense_row list \<Rightarrow> (real \<times> real) option) \<Rightarrow> connection \<Rightarrow> error + f8" where
  "carrier_correction_meters get_frequencies c =
     (if n_chan1 c \<noteq> None \<and> n_chan2 c \<noteq> None
      then (case frequencies get_frequencies c of
              Inl e \<Rightarrow> Inl e
            | Inr (f1, f2) \<Rightarrow>
                if f2 = 0 \<or> f1 = 0 then Inl ZeroDivisionError
                else Inr (Fin (C * (real_of_int (the (n_chan2 c)) / f2
                                      - real_of_int (the (n_chan1 c)) / f1))))
      else if offset c \<noteq> None then Inr (the (offset c))
      else Inl AssertionError)"

text \<open>
  Array arithmetic on doubles: NaN spreads through every operation. A zero divisor
  and the root of a negative number give no finite value; the model has no infinities
  and returns NaN there, and every statement about a quotient below takes a divisor
  that is not zero.
\<close>

fun f8_add :: "f8 \<Rightarrow> f8 \<Rightarrow> f8" where
  "f8_add (Fin a) (Fin b) = Fin (a + b)"
| "f8_add _ _ = NaN"

fun f8_sub :: "f8 \<Rightarrow> f8 \<Rightarrow> f8" where
  "f8_sub (Fin a) (Fin b) = Fin (a - b)"
| "f8_sub _ _ = NaN"

fun f8_mul :: "f8 \<Rightarrow> f8 \<Rightarrow> f8" where
  "f8_mul (Fin a) (Fin b) = Fin (a * b)"
| "f8_mul _ _ = NaN"

fun f8_div :: "f8 \<Rightarrow> f8 \<Rightarrow> f8" where
  "f8_div (Fin a) (Fin b) = (if b = 0 then NaN else Fin (a / b))"
| "f8_div _ _ = NaN"

fun f8_sqrt :: "f8 \<Rightarrow> f8" where
  "f8_sqrt (Fin a) = (if a < 0 then NaN else Fin (sqrt a))"
| "f8_sqrt NaN = NaN"

fun f8_abs :: "f8 \<Rightarrow> f8" where
  "f8_abs (Fin a) = Fin \<bar>a\<bar>"
| "f8_abs NaN = NaN"

definition numpy_sum :: "f8 list \<Rightarrow> f8" where
  "numpy_sum xs = fold (\<lambda>x acc. f8_add acc x) xs (Fin 0)"

text \<open>\<open>numpy.mean\<close>: the sum over the count; NaN for an empty array.\<close>

definition numpy_mean :: "f8 list \<Rightarrow> f8" where
  "numpy_mean xs = f8_div (numpy_sum xs) (Fin (real (length xs)))"

text \<open>\<open>numpy.std\<close>: the root of the mean of \<open>abs(x - x.mean()) ** 2\<close>.\<close>

definition numpy_std :: "f8 list \<Rightarrow> f8" where
  "numpy_std xs =
     f8_sqrt (numpy_mean
       (map (\<lambda>x. let d = f8_abs (f8_sub x (numpy_mean xs)) in f8_mul d d) xs))"

text \<open>\<open>_correct_ambiguities_avg\<close>, column by column as the source computes it.\<close>

definition correct_ambiguities_avg ::
  "(string \<Rightarrow> dense_row list \<Rightarrow> (real \<times> real) option) \<Rightarrow> connection \<Rightarrow> error + connection" where
  "correct_ambiguities_avg get_frequencies c =
     (case frequencies get_frequencies c of
        Inl e \<Rightarrow> Inl e
      | Inr (f1, f2) \<Rightarrow>
          (case observations c of
             Inl e \<Rightarrow> Inl e
           | Inr obs \<Rightarrow>
               (let code_phase_diffs = map2 f8_sub (map C2C obs) (map C1C obs);
                    carrier_phase_diffs =
                      map (f8_mul (Fin C))
                        (map2 f8_sub (map (\<lambda>x. f8_div x (Fin f1)) (map L1C obs))
                                     (map (\<lambda>x. f8_div x (Fin f2)) (map L2C obs)));
                    difference = map2 f8_sub code_phase_diffs carrier_phase_diffs
                in Inr (c\<lparr>offset := Some (numpy_mean difference),
                           offset_error := Some (numpy_std difference)\<rparr>))))"

definition correct_ambiguities ::
  "(string \<Rightarrow> dense_row list \<Rightarrow> (real \<times> real) option) \<Rightarrow> connection \<Rightarrow> error + connection" where
  "correct_ambiguities get_frequencies c = correct_ambiguities_avg get_frequencies c"

text \<open>The residual of one sample, in the arithmetic of the arrays.\<close>

definition sample_residual :: "real \<Rightarrow> real \<Rightarrow> dense_row \<Rightarrow> f8" where
  "sample_residual f1 f2 r =
     f8_sub (f8_sub (C2C r) (C1C r))
       (f8_mul (Fin C) (f8_sub (f8_div (L1C r) (Fin f1)) (f8_div (L2C r) (Fin f2))))"

text \<open>
  The offset as the specification words it, over real numbers: the residual of one
  sample is the code-phase difference (secondary minus primary band) minus the
  carrier-phase difference, the speed of light times (primary carrier / f1 - secondary
  carrier / f2); the offset is the mean residual and the offset error the standard
  deviation of the residuals.
\<close>

fun fin :: "f8 \<Rightarrow> real" where
  "fin (Fin x) = x"
| "fin NaN = 0"

definition finite_bands :: "dense_row \<Rightarrow> bool" where
  "finite_bands r \<longleftrightarrow>
     \<not> isnan (C1C r) \<and> \<not> isnan (C2C r) \<and> \<not> isnan (L1C r) \<and> \<not> isnan (L2C r)"

definition spec_residual :: "real \<Rightarrow> real \<Rightarrow> dense_row \<Rightarrow> real" where
  "spec_residual f1 f2 r =
     (fin (C2C r) - fin (C1C r)) - C * (fin (L1C r) / f1 - fin (L2C r) / f2)"

definition spec_mean :: "real list \<Rightarrow> real" where
  "spec_mean xs = sum_list xs / real (length xs)"

definition spec_std :: "real list \<Rightarrow> real" where
  "spec_std xs = sqrt (spec_mean (map (\<lambda>x. (x - spec_mean xs)\<^sup>2) xs))"

section \<open>tid/tec.py: the pierce points\<close>

text \<open>
  \<open>ion_locs\<close>. \<open>Connection.ipps\<close> calls it with one station location and the array of
  satellite positions, one row per sample, and numpy spreads the station location
  over the rows; \<open>c\<close> is one number, the sum over all of \<open>rec_pos ** 2\<close>. The positions
  are finite and \<open>a\<close>, \<open>b\<close>, \<open>c\<close> are computed on real numbers. The root and the two
  quotients are computed on doubles, so that a sample without a real solution gives
  NaN as in numpy: the root of a negative discriminant is NaN, and for a satellite at
  the receiver \<open>a\<close> and \<open>b\<close> are 0 and both quotients are 0 / 0. A comparison with NaN
  is false.
\<close>

type_synonym vec3 = "real \<times> real \<times> real"

type_synonym f8vec3 = "f8 \<times> f8 \<times> f8"

fun vsub :: "vec3 \<Rightarrow> vec3 \<Rightarrow> vec3" where
  "vsub (x1, y1, z1) (x2, y2, z2) = (x1 - x2, y1 - y2, z1 - z2)"

fun vadd :: "vec3 \<Rightarrow> vec3 \<Rightarrow> vec3" where
  "vadd (x1, y1, z1) (x2, y2, z2) = (x1 + x2, y1 + y2, z1 + z2)"

fun vmul :: "vec3 \<Rightarrow> vec3 \<Rightarrow> vec3" where
  "vmul (x1, y1, z1) (x2, y2, z2) = (x1 * x2, y1 * y2, z1 * z2)"

fun vsum :: "vec3 \<Rightarrow> real" where
  "vsum (x, y, z) = x + y + z"

fun f8vec :: "vec3 \<Rightarrow> f8vec3" where
  "f8vec (x, y, z) = (Fin x, Fin y, Fin z)"

fun f8vadd :: "f8vec3 \<Rightarrow> f8vec3 \<Rightarrow> f8vec3" where
  "f8vadd (x1, y1, z1) (x2, y2, z2) = (f8_add x1 x2, f8_add y1 y2, f8_add z1 z2)"

fun f8vmul :: "f8vec3 \<Rightarrow> f8vec3 \<Rightarrow> f8vec3" where
  "f8vmul (x1, y1, z1) (x2, y2, z2) = (f8_mul x1 x2, f8_mul y1 y2, f8_mul z1 z2)"

fun f8_less :: "f8 \<Rightarrow> f8 \<Rightarrow> bool" where
  "f8_less (Fin a) (Fin b) \<longleftrightarrow> a < b"
| "f8_less _ _ \<longleftrightarrow> False"

fun ion_locs_loop :: "nat \<Rightarrow> (f8 \<times> f8) list \<Rightarrow> f8vec3 list \<Rightarrow> f8vec3 list" where
  "ion_locs_loop i [] scale = scale"
| "ion_locs_loop i ((x, y) # rest) scale =
     (let smallest = (if f8_less (f8_abs x) (f8_abs y) then x else y)
      in ion_locs_loop (Suc i) rest (scale[i := (smallest, smallest, smallest)]))"

definition ion_locs :: "vec3 \<Rightarrow> vec3 list \<Rightarrow> real \<Rightarrow> f8vec3 list" where
  "ion_locs rec_pos sat_pos' ionh =
     (let a = map (\<lambda>s. vsum (vmul (vsub s rec_pos) (vsub s rec_pos))) sat_pos';
          b = map (\<lambda>s. 2 * vsum (vmul (vsub s rec_pos) rec_pos)) sat_pos';
          c = vsum (vmul rec_pos rec_pos) - ionh\<^sup>2;
          common = map2 (\<lambda>a b. f8_div (f8_sqrt (Fin (b\<^sup>2 - 4 * a * c))) (Fin (2 * a))) a b;
          b_scaled = map2 (\<lambda>a b. f8_div (Fin (- b)) (Fin (2 * a))) a b;
          scale = ion_locs_loop 0
                    (zip (map2 f8_add b_scaled common) (map2 f8_sub b_scaled common))
                    (replicate (length sat_pos') (Fin 0, Fin 0, Fin 0))
      in map2 (\<lambda>s sc. f8vadd (f8vec rec_pos) (f8vmul (f8vec (vsub s rec_pos)) sc))
           sat_pos' scale)"

text \<open>
  The quadratic of one sample, \<open>a t\<^sup>2 + b t + c = 0\<close>, when it has a real solution, its
  two roots as the source writes them (\<open>b_scaled + common\<close> and \<open>b_scaled - common\<close>),
  the one the loop stores, and the point \<open>rec + (sat - rec) t\<close> for it.
\<close>

definition quad_a :: "vec3 \<Rightarrow> vec3 \<Rightarrow> real" where
  "quad_a rec_pos s = vsum (vmul (vsub s rec_pos) (vsub s rec_pos))"

definition quad_b :: "vec3 \<Rightarrow> vec3 \<Rightarrow> real" where
  "quad_b rec_pos s = 2 * vsum (vmul (vsub s rec_pos) rec_pos)"

definition quad_c :: "vec3 \<Rightarrow> real \<Rightarrow> real" where
  "quad_c rec_pos ionh = vsum (vmul rec_pos rec_pos) - ionh\<^sup>2"

definition discriminant :: "vec3 \<Rightarrow> real \<Rightarrow> vec3 \<Rightarrow> real" where
  "discriminant rec_pos ionh s =
     (quad_b rec_pos s)\<^sup>2 - 4 * quad_a rec_pos s * quad_c rec_pos ionh"

definition real_solution :: "vec3 \<Rightarrow> real \<Rightarrow> vec3 \<Rightarrow> bool" where
  "real_solution rec_pos ionh s \<longleftrightarrow>
     quad_a rec_pos s \<noteq> 0 \<and> 0 \<le> discriminant rec_pos ionh s"

definition root_x :: "vec3 \<Rightarrow> real \<Rightarrow> vec3 \<Rightarrow> real" where
  "root_x rec_pos ionh s =
     - quad_b rec_pos s / (2 * quad_a rec_pos s)
       + sqrt (discriminant rec_pos ionh s) / (2 * quad_a rec_pos s)"

definition root_y :: "vec3 \<Rightarrow> real \<Rightarrow> vec3 \<Rightarrow> real" where
  "root_y rec_pos ionh s =
     - quad_b rec_pos s / (2 * quad_a rec_pos s)
       - sqrt (discriminant rec_pos ionh s) / (2 * quad_a rec_pos s)"

definition ion_scale :: "vec3 \<Rightarrow> real \<Rightarrow> vec3 \<Rightarrow> real" where
  "ion_scale rec_pos ionh s =
     (if \<bar>root_x rec_pos ionh s\<bar> < \<bar>root_y rec_pos ionh s\<bar>
      then root_x rec_pos ionh s else root_y rec_pos ionh s)"

definition ion_point :: "vec3 \<Rightarrow> real \<Rightarrow> vec3 \<Rightarrow> vec3" where
  "ion_point rec_pos ionh s =
     vadd rec_pos (vmul (vsub s rec_pos)
       (ion_scale rec_pos ionh s, ion_scale rec_pos ionh s, ion_scale rec_pos ionh s))"

text \<open>What \<open>ion_locs\<close> computes for one sample, step by step as the source does.\<close>

definition ion_sample :: "vec3 \<Rightarrow> real \<Rightarrow> vec3 \<Rightarrow> f8vec3" where
  "ion_sample rec_pos ionh s =
     (let a = quad_a rec_pos s; b = quad_b rec_pos s; c = quad_c rec_pos ionh;
          common = f8_div (f8_sqrt (Fin (b\<^sup>2 - 4 * a * c))) (Fin (2 * a));
          b_scaled = f8_div (Fin (- b)) (Fin (2 * a));
          x = f8_add b_scaled common;
          y = f8_sub b_scaled common;
          smallest = (if f8_less (f8_abs x) (f8_abs y) then x else y)
      in f8vadd (f8vec rec_pos) (f8vmul (f8vec (vsub s rec_pos)) (smallest, smallest, smallest)))"

text \<open>The distance of a point from the origin.\<close>

definition vnorm :: "vec3 \<Rightarrow> real" where
  "vnorm v = sqrt (vsum (vmul v v))"

section \<open>tid/dense\_data.py: conversion of raw observations\<close>

text \<open>What \<open>_meas_to_tuple\<close> reads of a \<open>GNSSMeasurement\<close>.\<close>

record raw_meas =
  meas_prn :: string
  meas_observables :: "(string \<times> f8) list"
  meas_recv_time_sec :: f8
  meas_recv_time_week :: int
  meas_sat_clock_err :: f8
  meas_sat_pos :: "f8 \<times> f8 \<times> f8"
  meas_sat_vel :: "f8 \<times> f8 \<times> f8"
  meas_sat_pos_final :: "f8 \<times> f8 \<times> f8"
  meas_corrected :: bool
  meas_processed :: bool

text \<open>\<open>d.get(k, numpy.nan)\<close>.\<close>

definition get_or_nan :: "(string \<times> f8) list \<Rightarrow> string \<Rightarrow> f8" where
  "get_or_nan d k = (case map_of d k of None \<Rightarrow> NaN | Some v \<Rightarrow> v)"

text \<open>
  \<open>_meas_to_tuple\<close>, with each position of the tuple under the field of \<open>DENSE_TYPE\<close>
  that \<open>numpy.array(value, dtype=DENSE_TYPE)\<close> puts it in: the tick is 0, and the last
  two positions hold \<open>corrected\<close> and then \<open>processed\<close>.
\<close>

definition meas_to_tuple :: "raw_meas \<Rightarrow> dense_row" where
  "meas_to_tuple raw =
     \<lparr>tick = 0,
      C1C = get_or_nan (meas_observables raw) ''C1C'',
      C2C = get_or_nan (meas_observables raw) ''C2C'',
      C2P = get_or_nan (meas_observables raw) ''C2P'',
      C5C = get_or_nan (meas_observables raw) ''C5C'',
      L1C = get_or_nan (meas_observables raw) ''L1C'',
      L2C = get_or_nan (meas_observables raw) ''L2C'',
      L5C = get_or_nan (meas_observables raw) ''L5C'',
      recv_time_sec = meas_recv_time_sec raw,
      recv_time_week = meas_recv_time_week raw,
      sat_clock_err = meas_sat_clock_err raw,
      sat_pos = meas_sat_pos raw,
      sat_vel = meas_sat_vel raw,
      sat_pos_final = meas_sat_pos_final raw,
      is_processed = meas_corrected raw,
      is_corrected = meas_processed raw\<rparr>"

text \<open>
  \<open>sv_dict_tmp[obs.prn].append(...)\<close>, after the key was added with an empty list when
  it was new: a new key goes to the end of the dict.
\<close>

fun dict_append :: "(string \<times> 'v list) list \<Rightarrow> string \<Rightarrow> 'v \<Rightarrow> (string \<times> 'v list) list" where
  "dict_append [] k v = [(k, [v])]"
| "dict_append ((k', vs) # rest) k v =
     (if k' = k then (k', vs @ [v]) # rest else (k', vs) # dict_append rest k v)"

text \<open>
  The swap \<open>arr[["C2C", "C2P"]] = arr[["C2P", "C2C"]]\<close>, done when every \<open>C2C\<close> of the
  array is NaN: each row's two bands change places.
\<close>

definition swap_bands :: "dense_row list \<Rightarrow> dense_row list" where
  "swap_bands arr =
     (if list_all (\<lambda>r. isnan (C2C r)) arr
      then map (\<lambda>r. r\<lparr>C2C := C2P r, C2P := C2C r\<rparr>) arr
      else arr)"

definition from_raw_obs :: "raw_meas list list \<Rightarrow> (string \<times> dense_row list) list" where
  "from_raw_obs raw_obs =
     (let sv_dict_tmp =
            fold (\<lambda>sat_obs d.
                    fold (\<lambda>obs d. dict_append d (meas_prn obs) (meas_to_tuple obs)) sat_obs d)
              raw_obs []
      in map (\<lambda>(key, val). (key, swap_bands val)) sv_dict_tmp)"

text \<open>
  The rows of one satellite as converted, before the swap: the tuples of its
  measurements in the order of the batch.
\<close>

definition converted :: "raw_meas list list \<Rightarrow> string \<Rightarrow> dense_row list" where
  "converted raw_obs key =
     map meas_to_tuple (filter (\<lambda>obs. meas_prn obs = key) (concat raw_obs))"

section \<open>Fixtures: four samples with one tick missing, six samples with none\<close>

definition fixture_row :: "int \<Rightarrow> dense_row" where
  "fixture_row t =
     \<lparr>tick = t, C1C = NaN, C2C = NaN, C2P = NaN, C5C = NaN,
      L1C = NaN, L2C = NaN, L5C = NaN,
      recv_time_sec = Fin 0, recv_time_week = 0, sat_clock_err = Fin 0,
      sat_pos = (Fin 0, Fin 0, Fin 0), sat_vel = (Fin 0, Fin 0, Fin 0),
      sat_pos_final = (Fin 0, Fin 0, Fin 0),
      is_processed = False, is_corrected = False\<rparr>"

definition fixture_band_row :: "int \<Rightarrow> real \<Rightarrow> real \<Rightarrow> real \<Rightarrow> real \<Rightarrow> dense_row" where
  "fixture_band_row t c1 c2 l1 l2 =
     (fixture_row t)\<lparr>C1C := Fin c1, C2C := Fin c2, L1C := Fin l1, L2C := Fin l2\<rparr>"

definition fixture_scenario :: scenario where
  "fixture_scenario =
     \<lparr>station_data =
        [(''stn1'', [(''G05'', map fixture_row [100, 101, 103, 104]),
                     (''G07'', map fixture_row [200, 201, 202, 203, 204, 205]),
                     (''G09'', [fixture_band_row 300 10 13 4 1,
                                fixture_band_row 301 20 25 6 2]),
                     (''G11'', map fixture_row [- 1073741829, 1073741824])])]\<rparr>"

definition fixture_connection :: connection where
  "fixture_connection =
     \<lparr>scenario = fixture_scenario, station = ''stn1'', prn = ''G05'',
      idx_start = 0, idx_end = 3, tick_start = 100, tick_end = 104,
      missing_ticks = [102], n_chan1 = None, n_chan2 = None,
      offset = None, offset_error = None\<rparr>"

definition fixture_connection_wide :: connection where
  "fixture_connection_wide =
     \<lparr>scenario = fixture_scenario, station = ''stn1'', prn = ''G11'',
      idx_start = 0, idx_end = 1, tick_start = - 1073741829, tick_end = 1073741824,
      missing_ticks = [], n_chan1 = None, n_chan2 = None,
      offset = None, offset_error = None\<rparr>"

definition fixture_connection_long :: connection where
  "fixture_connection_long =
     \<lparr>scenario = fixture_scenario, station = ''stn1'', prn = ''G07'',
      idx_start = 0, idx_end = 5, tick_start = 200, tick_end = 205,
      missing_ticks = [], n_chan1 = None, n_chan2 = None,
      offset = None, offset_error = None\<rparr>"

definition fixture_vtecs :: "connection \<Rightarrow> error + f8 list \<times> f8 list" where
  "fixture_vtecs con =
     (case observations con of
        Inl e \<Rightarrow> Inl e
      | Inr obs \<Rightarrow> Inr (map (\<lambda>r. Fin (real_of_int (tick r))) obs, map (\<lambda>r. Fin 1) obs))"

definition fixture_sparse :: "f8 sparse_list" where
  "fixture_sparse =
     \<lparr>ranges = [(100, 104), (0, 1)],
      data = [[Fin 1, Fin 2, Fin 3, Fin 4], [Fin 9, Fin 8]],
      tick_lookup = [tick_idx fixture_connection, Some],
      default_val = Fin 0, max_val = 104\<rparr>"

definition fixture_sparse_swapped :: "f8 sparse_list" where
  "fixture_sparse_swapped =
     \<lparr>ranges = [(0, 1), (100, 104)],
      data = [[Fin 9, Fin 8], [Fin 1, Fin 2, Fin 3, Fin 4]],
      tick_lookup = [Some, tick_idx fixture_connection],
      default_val = Fin 0, max_val = 104\<rparr>"

definition fixture_connection_bands :: connection where
  "fixture_connection_bands =
     \<lparr>scenario = fixture_scenario, station = ''stn1'', prn = ''G09'',
      idx_start = 0, idx_end = 1, tick_start = 300, tick_end = 301,
      missing_ticks = [], n_chan1 = None, n_chan2 = None,
      offset = None, offset_error = None\<rparr>"

definition fixture_frequencies :: "string \<Rightarrow> dense_row list \<Rightarrow> (real \<times> real) option" where
  "fixture_frequencies p obs = Some (299792458, 149896229)"

definition fixture_rec :: vec3 where
  "fixture_rec = (6378137, 0, 0)"

definition fixture_sat_above :: vec3 where
  "fixture_sat_above = (26560000, 0, 0)"

definition fixture_sat_below :: vec3 where
  "fixture_sat_below = (- 26560000, 0, 0)"

definition fixture_meas :: "string \<Rightarrow> (string \<times> f8) list \<Rightarrow> raw_meas" where
  "fixture_meas p obs =
     \<lparr>meas_prn = p, meas_observables = obs,
      meas_recv_time_sec = Fin 0, meas_recv_time_week = 0, meas_sat_clock_err = Fin 0,
      meas_sat_pos = (Fin 0, Fin 0, Fin 0), meas_sat_vel = (Fin 0, Fin 0, Fin 0),
      meas_sat_pos_final = (Fin 0, Fin 0, Fin 0),
      meas_corrected = False, meas_processed = True\<rparr>"

definition fixture_raw_obs :: "raw_meas list list" where
  "fixture_raw_obs =
     [[fixture_meas ''G01'' [(''C1C'', Fin 1), (''C2P'', Fin 2)],
       fixture_meas ''G02'' [(''C2C'', Fin 3), (''C2P'', Fin 5)]],
      [fixture_meas ''G01'' [(''C2P'', Fin 4)],
       fixture_meas ''G02'' [(''C2P'', Fin 6)]]]"

section \<open>Python indexing on valid indices\<close>

lemma py_slice_valid:
  assumes "0 \<le> i" "i \<le> j" "j < int (length arr)"
  shows "py_slice arr i (j + 1) = take (nat (j + 1 - i)) (drop (nat i) arr)"
  using assms by (simp add: py_slice_def slice_bound_def Let_def nat_diff_distrib)

lemma py_index_valid: "0 \<le> i \<Longrightarrow> py_index arr i = Inr r \<Longrightarrow> i < int (length arr) \<and> r = arr ! nat i"
  by (auto simp: py_index_def Let_def split: if_splits)


section \<open>The missing ticks of a connection\<close>

lemma fold_ior_set:
  "set (fold (\<lambda>g m. py_set_ior m (f g)) gs m) = set m \<union> (\<Union>g\<in>set gs. set (f g))"
  by (induction gs arbitrary: m) (auto simp: py_set_ior_def)

lemma fold_ior_distinct:
  "distinct m \<Longrightarrow> distinct (fold (\<lambda>g m. py_set_ior m (f g)) gs m)"
  by (induction gs arbitrary: m) (auto simp: py_set_ior_def)

lemma numpy_diff_length: "length (numpy_diff ts) = length ts - 1"
  by (simp add: numpy_diff_def)

lemma numpy_diff_nth:
  "Suc g < length ts \<Longrightarrow> numpy_diff ts ! g = wrap_i4 (ts ! Suc g - ts ! g)"
  by (simp add: numpy_diff_def nth_tl)

lemma wrap_i4_id: "- 2147483648 \<le> d \<Longrightarrow> d < 2147483648 \<Longrightarrow> wrap_i4 d = d"
  by (simp add: wrap_i4_def)

lemma small_gaps_no_wrap:
  assumes srt: "sorted_wrt (<) ts" and gaps: "small_gaps ts" and g: "Suc g < length ts"
  shows "wrap_i4 (ts ! Suc g - ts ! g) = ts ! Suc g - ts ! g"
proof -
  have "(ts ! g, tl ts ! g) \<in> set (zip ts (tl ts))"
    using g by (auto simp: set_zip intro!: exI[of _ g])
  then have "tl ts ! g - ts ! g < 2147483648"
    using gaps by (auto simp: small_gaps_def list_all_iff)
  then have "ts ! Suc g - ts ! g < 2147483648"
    using g by (simp add: nth_tl)
  moreover have "ts ! g < ts ! Suc g"
    using sorted_wrt_nth_less[OF srt, of g "Suc g"] g by simp
  ultimately show ?thesis
    by (intro wrap_i4_id) auto
qed

lemma gap_set_iff:
  assumes nw: "\<And>g. Suc g < length ts \<Longrightarrow> wrap_i4 (ts ! Suc g - ts ! g) = ts ! Suc g - ts ! g"
  shows "x \<in> (\<Union>g\<in>set (gap_idxs ts). set (py_range (ts ! g + 1) (ts ! (g + 1))))
     \<longleftrightarrow> (\<exists>g. Suc g < length ts \<and> ts ! g < x \<and> x < ts ! Suc g)"
  (is "?L \<longleftrightarrow> ?R")
proof
  assume ?L
  then obtain g where g: "g \<in> set (gap_idxs ts)" "x \<in> set (py_range (ts ! g + 1) (ts ! (g + 1)))"
    by blast
  from g(1) have "Suc g < length ts"
    by (auto simp: gap_idxs_def numpy_diff_length)
  moreover from g(2) have "ts ! g < x \<and> x < ts ! Suc g"
    by (auto simp: py_range_def)
  ultimately show ?R by blast
next
  assume ?R
  then obtain g where g: "Suc g < length ts" "ts ! g < x" "x < ts ! Suc g"
    by blast
  then have "1 < numpy_diff ts ! g"
    by (simp add: numpy_diff_nth nw)
  with g(1) have "g \<in> set (gap_idxs ts)"
    by (auto simp: gap_idxs_def numpy_diff_length)
  moreover from g have "x \<in> set (py_range (ts ! g + 1) (ts ! (g + 1)))"
    by (auto simp: py_range_def)
  ultimately show ?L by blast
qed

lemma between_iff:
  "sorted_wrt (<) ts \<Longrightarrow> ts \<noteq> [] \<Longrightarrow>
     (\<exists>g. Suc g < length ts \<and> ts ! g < x \<and> x < ts ! Suc g)
       \<longleftrightarrow> hd ts \<le> x \<and> x \<le> last ts \<and> x \<notin> set (ts :: int list)"
proof (induction ts rule: induct_list012)
  case 1
  then show ?case by simp
next
  case (2 a)
  then show ?case by auto
next
  case (3 a b rest)
  have srt: "sorted_wrt (<) (b # rest)" and ab: "a < b" using "3.prems" by auto
  have IH: "(\<exists>g. Suc g < length (b # rest) \<and> (b # rest) ! g < x \<and> x < (b # rest) ! Suc g)
       \<longleftrightarrow> hd (b # rest) \<le> x \<and> x \<le> last (b # rest) \<and> x \<notin> set (b # rest)"
    using "3.IH"(2) srt by blast
  have split: "(\<exists>g. Suc g < length (a # b # rest) \<and> (a # b # rest) ! g < x \<and> x < (a # b # rest) ! Suc g)
      \<longleftrightarrow> (a < x \<and> x < b) \<or> (\<exists>g. Suc g < length (b # rest) \<and> (b # rest) ! g < x \<and> x < (b # rest) ! Suc g)"
    (is "?L \<longleftrightarrow> ?R")
  proof
    assume ?L
    then obtain g where g: "Suc g < length (a # b # rest)" "(a # b # rest) ! g < x" "x < (a # b # rest) ! Suc g"
      by blast
    show ?R
    proof (cases g)
      case 0
      with g show ?thesis by simp
    next
      case (Suc g')
      with g show ?thesis by auto
    qed
  next
    assume ?R
    then show ?L
    proof
      assume "a < x \<and> x < b"
      then show ?L by (intro exI[of _ 0]) simp
    next
      assume "\<exists>g. Suc g < length (b # rest) \<and> (b # rest) ! g < x \<and> x < (b # rest) ! Suc g"
      then obtain g where "Suc g < length (b # rest)" "(b # rest) ! g < x" "x < (b # rest) ! Suc g"
        by blast
      then show ?L by (intro exI[of _ "Suc g"]) simp
    qed
  qed
  have blast': "b \<le> last (b # rest)"
    using srt by (metis last_in_set list.discI set_ConsD sorted_wrt.simps(2) less_imp_le order_refl)
  have alow: "\<forall>y\<in>set (b # rest). a < y" using "3.prems" by auto
  have blow: "\<forall>y\<in>set rest. b < y" using srt by auto
  show ?case
    unfolding split IH using ab blast' alow blow by auto
qed

lemma sorted_take_below:
  assumes "sorted_wrt (<) (ts :: int list)" "k < length ts"
  shows "set (take k ts) = {y \<in> set ts. y < ts ! k}"
proof -
  have lt: "\<And>i j. i < j \<Longrightarrow> j < length ts \<Longrightarrow> ts ! i < ts ! j"
    using assms(1) by (simp add: sorted_wrt_nth_less)
  show ?thesis
  proof (intro set_eqI iffI)
    fix y assume "y \<in> set (take k ts)"
    then obtain i where i: "i < k" "i < length ts" "y = ts ! i"
      by (auto simp: in_set_conv_nth)
    then show "y \<in> {y \<in> set ts. y < ts ! k}"
      using lt[of i k] assms(2) by auto
  next
    fix y assume "y \<in> {y \<in> set ts. y < ts ! k}"
    then obtain i where i: "i < length ts" "y = ts ! i" "ts ! i < ts ! k"
      by (auto simp: in_set_conv_nth)
    have "i < k"
    proof (rule ccontr)
      assume "\<not> i < k"
      then have "k = i \<or> k < i" by auto
      then show False using lt[of k i] i by auto
    qed
    then show "y \<in> set (take k ts)"
      using i assms(2) by (auto simp: in_set_conv_nth intro!: exI[of _ i])
  qed
qed


lemma sorted_index_count:
  assumes srt: "sorted_wrt (<) (ts :: int list)" and k: "k < length ts"
  shows "int (card {m. hd ts \<le> m \<and> m \<le> last ts \<and> m \<notin> set ts \<and> m < ts ! k})
           = ts ! k - hd ts - int k"
proof -
  have ne: "ts \<noteq> []" using k by auto
  have hd_le: "\<And>y. y \<in> set ts \<Longrightarrow> hd ts \<le> y"
    using srt ne by (cases ts) auto
  have le_last: "ts ! k \<le> last ts"
  proof (cases "k = length ts - 1")
    case True
    then show ?thesis using ne by (simp add: last_conv_nth)
  next
    case False
    then have "k < length ts - 1" using k by simp
    then have "ts ! k < ts ! (length ts - 1)"
      using sorted_wrt_nth_less[OF srt, of k "length ts - 1"] k by simp
    then show ?thesis using ne by (simp add: last_conv_nth)
  qed
  have below: "set (take k ts) = {y \<in> set ts. y < ts ! k}"
    by (rule sorted_take_below[OF srt k])
  have eq: "{m. hd ts \<le> m \<and> m \<le> last ts \<and> m \<notin> set ts \<and> m < ts ! k}
              = {hd ts..<ts ! k} - set (take k ts)"
    using le_last by (auto simp: below)
  have sub: "set (take k ts) \<subseteq> {hd ts..<ts ! k}"
    using hd_le by (auto simp: below)
  have "distinct ts" using srt by (simp add: strict_sorted_iff)
  then have "distinct (take k ts)" by simp
  then have ck: "card (set (take k ts)) = k"
    using k by (simp add: distinct_card)
  have "card ({hd ts..<ts ! k} - set (take k ts)) = card {hd ts..<ts ! k} - k"
    using sub ck by (simp add: card_Diff_subset)
  moreover have "k \<le> card {hd ts..<ts ! k}"
    using card_mono[OF _ sub] ck by simp
  moreover have "hd ts \<le> ts ! k"
    using hd_le k by simp
  ultimately show ?thesis
    unfolding eq by simp
qed

lemma Connection_init_obs:
  assumes "Connection_init scn st p i j = Inr c"
  shows "\<exists>arr r_start r_end.
    station_prn_rows scn st p = Inr arr \<and>
    py_index arr i = Inr r_start \<and> py_index arr j = Inr r_end \<and>
    observations c = Inr (py_slice arr i (j + 1)) \<and>
    tick_start c = tick r_start \<and> tick_end c = tick r_end"
  using assms
  by (auto simp: Connection_init_def init_missing_ticks_def observations_def
      station_prn_rows_def dict_get_def Let_def
      split: sum.splits option.splits if_splits)

lemma Connection_init_missing:
  assumes "Connection_init scn st p i j = Inr c" "observations c = Inr obs"
  shows "missing_ticks c =
       fold (\<lambda>gap_idx m. py_set_ior m
               (py_range (map tick obs ! gap_idx + 1) (map tick obs ! (gap_idx + 1))))
         (gap_idxs (map tick obs)) []"
  using assms
  by (auto simp: Connection_init_def init_missing_ticks_def observations_def
      station_prn_rows_def dict_get_def Let_def
      split: sum.splits option.splits if_splits)

lemma Connection_init_distinct:
  assumes "Connection_init scn st p i j = Inr c"
  shows "distinct (missing_ticks c)"
proof -
  obtain obs where "observations c = Inr obs"
    using Connection_init_obs[OF assms] by blast
  then show ?thesis
    by (simp add: Connection_init_missing[OF assms] fold_ior_distinct)
qed

lemma missing_ticks_set:
  assumes init: "Connection_init scn st p i j = Inr c"
    and obs: "observations c = Inr obs"
    and srt: "sorted_wrt (<) (map tick obs)" and gaps: "small_gaps (map tick obs)"
    and ne: "obs \<noteq> []"
  shows "set (missing_ticks c) =
           {m. tick (hd obs) \<le> m \<and> m \<le> tick (last obs) \<and> m \<notin> set (map tick obs)}"
proof -
  have "\<And>x. x \<in> set (missing_ticks c) \<longleftrightarrow>
          hd (map tick obs) \<le> x \<and> x \<le> last (map tick obs) \<and> x \<notin> set (map tick obs)"
    unfolding Connection_init_missing[OF init obs] fold_ior_set
    using gap_set_iff[OF small_gaps_no_wrap[OF srt gaps]] between_iff[OF srt] ne by simp
  then show ?thesis
    using ne by (auto simp: hd_map last_map)
qed

lemma fixture_init:
  "Connection_init fixture_scenario ''stn1'' ''G05'' 0 3 = Inr fixture_connection"
  by (simp add: Connection_init_def station_prn_rows_def dict_get_def fixture_scenario_def
      py_index_def init_missing_ticks_def observations_def py_slice_def slice_bound_def
      gap_idxs_def numpy_diff_def wrap_i4_def fixture_row_def py_set_ior_def py_range_def
      upt_conv_Cons upto.simps List.union_def List.insert_def fixture_connection_def)

lemma fixture_observations:
  "observations fixture_connection = Inr (map fixture_row [100, 101, 103, 104])"
  by (simp add: observations_def fixture_connection_def fixture_scenario_def dict_get_def
      py_slice_def slice_bound_def)

section \<open>tick\_idx\<close>

lemma fold_decrement:
  "fold (\<lambda>missing guess. if t > missing then guess - 1 else guess) ms (g::int)
     = g - int (length (filter (\<lambda>m. m < t) ms))"
  by (induction ms arbitrary: g) auto

lemma distinct_count_below:
  "distinct ms \<Longrightarrow> length (filter (\<lambda>m. m < t) ms) = card {m \<in> set ms. m < (t::int)}"
  by (metis distinct_filter distinct_card set_filter)

lemma tick_idx_card:
  assumes "distinct (missing_ticks c)"
  shows "tick_idx c t =
     (if t \<in> set (missing_ticks c) then None
      else Some (t - tick_start c - int (card {m \<in> set (missing_ticks c). m < t})))"
  using assms by (simp add: tick_idx_def fold_decrement distinct_count_below)

text \<open>
  C2. \<open>missing_ticks\<close> is a Python set, so its list holds no tick twice, as it does for
  every connection the constructor returns. For such a connection and every tick, \<open>tick_idx\<close> returns \<open>None\<close> exactly when the tick is in
  \<open>missing_ticks\<close>, and otherwise \<open>tick - tick_start\<close> minus the number of missing
  ticks strictly below the tick. The connection built over the samples at ticks
  100, 101, 103, 104 has \<open>missing_ticks = {102}\<close>, \<open>tick_idx(101) = 1\<close>,
  \<open>tick_idx(102) = None\<close> and \<open>tick_idx(103) = 2\<close>.
\<close>

theorem tick_idx_correct:
  "(Connection_init scn st p i j = Inr c' \<longrightarrow> distinct (missing_ticks c')) \<and>
   (distinct (missing_ticks c) \<longrightarrow>
      (tick_idx c t = None \<longleftrightarrow> t \<in> set (missing_ticks c)) \<and>
      (t \<notin> set (missing_ticks c) \<longrightarrow>
         tick_idx c t =
           Some (t - tick_start c - int (card {m \<in> set (missing_ticks c). m < t})))) \<and>
   Connection_init fixture_scenario ''stn1'' ''G05'' 0 3 = Inr fixture_connection \<and>
   observations fixture_connection = Inr (map fixture_row [100, 101, 103, 104]) \<and>
   map tick (map fixture_row [100, 101, 103, 104]) = [100, 101, 103, 104] \<and>
   set (missing_ticks fixture_connection) = {102} \<and>
   tick_idx fixture_connection 101 = Some 1 \<and>
   tick_idx fixture_connection 102 = None \<and>
   tick_idx fixture_connection 103 = Some 2"
proof (intro conjI impI)
  show "distinct (missing_ticks c')" if "Connection_init scn st p i j = Inr c'"
    using that by (rule Connection_init_distinct)
next
  assume d: "distinct (missing_ticks c)"
  show "tick_idx c t = None \<longleftrightarrow> t \<in> set (missing_ticks c)"
    by (simp add: tick_idx_card[OF d])
  show "tick_idx c t =
      Some (t - tick_start c - int (card {m \<in> set (missing_ticks c). m < t}))"
    if "t \<notin> set (missing_ticks c)"
    using that by (simp add: tick_idx_card[OF d])
next
  show "Connection_init fixture_scenario ''stn1'' ''G05'' 0 3 = Inr fixture_connection"
    by (rule fixture_init)
  show "observations fixture_connection = Inr (map fixture_row [100, 101, 103, 104])"
    by (rule fixture_observations)
  show "map tick (map fixture_row [100, 101, 103, 104]) = [100, 101, 103, 104]"
    by (simp add: fixture_row_def)
  show "set (missing_ticks fixture_connection) = {102}"
    and "tick_idx fixture_connection 101 = Some 1"
    and "tick_idx fixture_connection 102 = None"
    and "tick_idx fixture_connection 103 = Some 2"
    by (simp_all add: tick_idx_def fixture_connection_def)
qed

theorem tick_idx_correct_witness:
  "distinct (missing_ticks fixture_connection) \<and>
   104 \<notin> set (missing_ticks fixture_connection) \<and>
   tick_idx fixture_connection 104 = Some 3 \<and>
   card {m \<in> set (missing_ticks fixture_connection). m < 104} = 1"
proof -
  have d: "distinct (missing_ticks fixture_connection)"
    and n: "104 \<notin> set (missing_ticks fixture_connection)"
    by (simp_all add: fixture_connection_def)
  have s: "{m \<in> set (missing_ticks fixture_connection). m < 104} = {102}"
    by (auto simp: fixture_connection_def)
  have "tick_idx fixture_connection 104 =
      Some (104 - tick_start fixture_connection
              - int (card {m \<in> set (missing_ticks fixture_connection). m < 104}))"
    using tick_idx_correct[of _ _ _ _ _ _ fixture_connection 104] d n by blast
  then show ?thesis
    using d n unfolding s by (simp add: fixture_connection_def)
qed

text \<open>
  C3, as the code has it. For a connection constructed over a valid index range
  \<open>0 \<le> idx_start \<le> idx_end\<close> whose observation rows have strictly increasing ticks,
  neighbouring ticks being less than \<open>2\<^sup>3\<^sup>1\<close> apart, and every tick in
  \<open>[tick_start, tick_end]\<close> that is not in \<open>missing_ticks\<close>: \<open>tick_idx\<close> returns an index,
  and the observation slice at that index holds a row whose \<open>tick\<close> field is the
  queried tick.
\<close>

theorem tick_idx_roundtrip:
  assumes init: "Connection_init scn st p i j = Inr c"
    and idx: "0 \<le> i" "i \<le> j"
    and obs: "observations c = Inr obs"
    and srt: "sorted_wrt (<) (map tick obs)"
    and gaps: "small_gaps (map tick obs)"
    and rng: "tick_start c \<le> t" "t \<le> tick_end c"
    and present: "t \<notin> set (missing_ticks c)"
  shows "\<exists>k r. tick_idx c t = Some k \<and> py_index obs k = Inr r \<and> tick r = t"
proof -
  obtain arr r_start r_end where
    pis: "py_index arr i = Inr r_start" and ie: "py_index arr j = Inr r_end" and
    o: "observations c = Inr (py_slice arr i (j + 1))" and
    ts: "tick_start c = tick r_start" and te: "tick_end c = tick r_end"
    using Connection_init_obs[OF init] by blast
  have j: "j < int (length arr)" and re: "r_end = arr ! nat j"
    using py_index_valid[OF _ ie] idx by auto
  have rs: "r_start = arr ! nat i"
    using py_index_valid[OF idx(1) pis] by simp
  have obs_eq: "obs = take (nat (j + 1 - i)) (drop (nat i) arr)"
    using o obs py_slice_valid[OF idx j] by simp
  have len: "length obs = nat (j + 1 - i)"
    using idx j by (auto simp: obs_eq)
  then have ne: "obs \<noteq> []" using idx by auto
  have hd_obs: "hd obs = r_start"
    using idx j ne by (simp add: obs_eq rs hd_conv_nth del: take_eq_Nil)
  have last_obs: "last obs = r_end"
  proof -
    have "last obs = obs ! (length obs - 1)"
      using ne by (simp add: last_conv_nth)
    also have "\<dots> = arr ! (nat i + (nat (j + 1 - i) - 1))"
      using idx j by (simp add: obs_eq)
    also have "nat i + (nat (j + 1 - i) - 1) = nat j"
      using idx by (simp add: nat_diff_distrib nat_add_distrib)
    finally show ?thesis by (simp add: re)
  qed
  let ?ts = "map tick obs"
  have miss: "set (missing_ticks c) = {m. hd ?ts \<le> m \<and> m \<le> last ?ts \<and> m \<notin> set ?ts}"
    using missing_ticks_set[OF init obs srt gaps ne] ne by (simp add: hd_map last_map)
  have "t \<in> set ?ts"
    using present rng ne unfolding miss ts te
    by (simp add: hd_obs last_obs hd_map last_map)
  then obtain k where k: "k < length ?ts" "?ts ! k = t"
    by (auto simp: in_set_conv_nth)
  have cnt: "int (card {m \<in> set (missing_ticks c). m < t}) = t - hd ?ts - int k"
    using sorted_index_count[OF srt k(1)] unfolding miss k(2)
    by (simp add: Collect_conj_eq conj_ac) 
  have "tick_idx c t = Some (int k)"
    using present cnt ne
    by (simp add: tick_idx_card[OF Connection_init_distinct[OF init]] ts hd_obs hd_map)
  moreover have "py_index obs (int k) = Inr (obs ! k)"
    using k(1) by (simp add: py_index_def)
  moreover have "tick (obs ! k) = t"
    using k by simp
  ultimately show ?thesis by blast
qed

theorem tick_idx_roundtrip_witness:
  "Connection_init fixture_scenario ''stn1'' ''G05'' 0 3 = Inr fixture_connection \<and>
   observations fixture_connection = Inr (map fixture_row [100, 101, 103, 104]) \<and>
   sorted_wrt (<) (map tick (map fixture_row [100, 101, 103, 104])) \<and>
   small_gaps (map tick (map fixture_row [100, 101, 103, 104])) \<and>
   tick_start fixture_connection \<le> 103 \<and> 103 \<le> tick_end fixture_connection \<and>
   103 \<notin> set (missing_ticks fixture_connection) \<and>
   (\<exists>k r. tick_idx fixture_connection 103 = Some k \<and>
      py_index (map fixture_row [100, 101, 103, 104]) k = Inr r \<and> tick r = 103)"
proof -
  have srt: "sorted_wrt (<) (map tick (map fixture_row [100, 101, 103, 104]))"
    and gaps: "small_gaps (map tick (map fixture_row [100, 101, 103, 104]))"
    by (simp_all add: fixture_row_def small_gaps_def)
  have rng: "tick_start fixture_connection \<le> 103" "103 \<le> tick_end fixture_connection"
    and present: "103 \<notin> set (missing_ticks fixture_connection)"
    by (simp_all add: fixture_connection_def)
  show ?thesis
    using tick_idx_roundtrip[OF fixture_init _ _ fixture_observations srt gaps rng present]
      fixture_init fixture_observations srt gaps rng present
    by simp
qed

lemma fixture_wide_init:
  "Connection_init fixture_scenario ''stn1'' ''G11'' 0 1 = Inr fixture_connection_wide"
  by (simp add: Connection_init_def station_prn_rows_def dict_get_def fixture_scenario_def
      py_index_def init_missing_ticks_def observations_def py_slice_def slice_bound_def
      gap_idxs_def numpy_diff_def wrap_i4_def fixture_row_def fixture_connection_wide_def)

lemma fixture_wide_observations:
  "observations fixture_connection_wide = Inr (map fixture_row [- 1073741829, 1073741824])"
  by (simp add: observations_def fixture_connection_wide_def fixture_scenario_def dict_get_def
      py_slice_def slice_bound_def)

text \<open>
  The claim C3 as stated fails where the 4-byte difference of two neighbouring ticks
  wraps. Over the two rows with ticks -1073741829 and 1073741824 the difference
  2147483653 is stored as -2147483643, no gap is found and \<open>missing_ticks\<close> stays empty;
  tick 0 is in the range and not missing, \<open>tick_idx\<close> answers 1073741829, and the
  slice of two rows has no row there.
\<close>

theorem tick_idx_roundtrip_counterexample:
  "Connection_init fixture_scenario ''stn1'' ''G11'' 0 1 = Inr fixture_connection_wide \<and>
   observations fixture_connection_wide = Inr (map fixture_row [- 1073741829, 1073741824]) \<and>
   sorted_wrt (<) (map tick (map fixture_row [- 1073741829, 1073741824])) \<and>
   numpy_diff (map tick (map fixture_row [- 1073741829, 1073741824])) = [- 2147483643] \<and>
   tick_start fixture_connection_wide \<le> 0 \<and> 0 \<le> tick_end fixture_connection_wide \<and>
   0 \<notin> set (missing_ticks fixture_connection_wide) \<and>
   tick_idx fixture_connection_wide 0 = Some 1073741829 \<and>
   py_index (map fixture_row [- 1073741829, 1073741824]) 1073741829 = Inl IndexError"
proof (intro conjI)
  show "Connection_init fixture_scenario ''stn1'' ''G11'' 0 1 = Inr fixture_connection_wide"
    by (rule fixture_wide_init)
  show "observations fixture_connection_wide
      = Inr (map fixture_row [- 1073741829, 1073741824])"
    by (rule fixture_wide_observations)
  show "sorted_wrt (<) (map tick (map fixture_row [- 1073741829, 1073741824]))"
    by (simp add: fixture_row_def)
  show "numpy_diff (map tick (map fixture_row [- 1073741829, 1073741824])) = [- 2147483643]"
    by (simp add: numpy_diff_def wrap_i4_def fixture_row_def)
  show "tick_start fixture_connection_wide \<le> 0" "0 \<le> tick_end fixture_connection_wide"
    "0 \<notin> set (missing_ticks fixture_connection_wide)"
    "tick_idx fixture_connection_wide 0 = Some 1073741829"
    by (simp_all add: fixture_connection_wide_def tick_idx_def)
  show "py_index (map fixture_row [- 1073741829, 1073741824]) 1073741829 = Inl IndexError"
    by (simp add: py_index_def)
qed

section \<open>ConnTickMap lookup\<close>

lemma ConnTickMap_getitem_find:
  "ConnTickMap_getitem cs t =
     (case find (\<lambda>con. tick_start con \<le> t \<and> t \<le> tick_end con) cs of
        Some con \<Rightarrow> Inr con
      | None \<Rightarrow> Inl KeyError)"
  by (induction cs) (auto simp: Connection_contains_def)

text \<open>
  C8. \<open>ConnTickMap.__getitem__\<close> returns the first member connection whose inclusive
  range \<open>[tick_start, tick_end]\<close> holds the tick, and raises \<open>KeyError\<close> exactly when no
  member's range holds it; a tick is in a connection when
  \<open>tick_start \<le> tick \<le> tick_end\<close>, whether or not it is among the missing ticks.
\<close>

theorem ConnTickMap_getitem_correct:
  "ConnTickMap_getitem cs t =
     (case find (\<lambda>con. tick_start con \<le> t \<and> t \<le> tick_end con) cs of
        Some con \<Rightarrow> Inr con
      | None \<Rightarrow> Inl KeyError) \<and>
   (ConnTickMap_getitem cs t = Inl KeyError \<longleftrightarrow>
      (\<forall>con \<in> set cs. \<not> (tick_start con \<le> t \<and> t \<le> tick_end con))) \<and>
   (Connection_contains c t \<longleftrightarrow> tick_start c \<le> t \<and> t \<le> tick_end c) \<and>
   Connection_contains (c\<lparr>missing_ticks := m\<rparr>) t = Connection_contains c t"
proof (intro conjI)
  show "ConnTickMap_getitem cs t = Inl KeyError \<longleftrightarrow>
      (\<forall>con \<in> set cs. \<not> (tick_start con \<le> t \<and> t \<le> tick_end con))"
    by (induction cs) (auto simp: Connection_contains_def)
qed (simp_all add: ConnTickMap_getitem_find Connection_contains_def)

theorem ConnTickMap_getitem_correct_witness:
  "ConnTickMap_getitem [fixture_connection] 102 = Inr fixture_connection \<and>
   102 \<in> set (missing_ticks fixture_connection) \<and>
   Connection_contains fixture_connection 102 \<and>
   ConnTickMap_getitem [fixture_connection] 105 = Inl KeyError \<and>
   \<not> (tick_start fixture_connection \<le> 105 \<and> 105 \<le> tick_end fixture_connection)"
  using ConnTickMap_getitem_correct[of "[fixture_connection]" 102 fixture_connection "[]"]
    ConnTickMap_getitem_correct[of "[fixture_connection]" 105 fixture_connection "[]"]
  by (simp add: fixture_connection_def)

section \<open>SparseList lookup\<close>

lemma getitem_scan_find:
  "getitem_scan ts dflt t =
     (case find (\<lambda>x. in_range (fst x) t) ts of
        None \<Rightarrow> Inr dflt
      | Some (r, d, l) \<Rightarrow> (case l t of None \<Rightarrow> Inr dflt | Some idx \<Rightarrow> py_index d idx))"
  by (induction ts dflt t rule: getitem_scan.induct) (auto simp: in_range_def)

lemma find_filter: "find P xs = (case filter P xs of [] \<Rightarrow> None | x # _ \<Rightarrow> Some x)"
  by (induction xs) auto

lemma ranges_disjoint_iff: "ranges_disjoint r1 r2 \<longleftrightarrow> \<not> (\<exists>t. in_range r1 t \<and> in_range r2 t)"
proof
  assume "ranges_disjoint r1 r2"
  then show "\<not> (\<exists>t. in_range r1 t \<and> in_range r2 t)"
    by (auto simp: ranges_disjoint_def in_range_def)
next
  assume no: "\<not> (\<exists>t. in_range r1 t \<and> in_range r2 t)"
  show "ranges_disjoint r1 r2"
  proof (rule ccontr)
    assume "\<not> ranges_disjoint r1 r2"
    then have "in_range r1 (max (fst r1) (fst r2)) \<and> in_range r2 (max (fst r1) (fst r2))"
      by (auto simp: ranges_disjoint_def in_range_def)
    with no show False by blast
  qed
qed

lemma non_overlapping_filter:
  "non_overlapping (map fst ts) \<Longrightarrow> length (filter (\<lambda>x. in_range (fst x) t) ts) \<le> 1"
proof (induction ts)
  case Nil
  then show ?case by simp
next
  case (Cons x ts)
  show ?case
  proof (cases "in_range (fst x) t")
    case True
    have "\<forall>y \<in> set ts. \<not> in_range (fst y) t"
      using Cons.prems True by (auto simp: list_all_iff ranges_disjoint_iff)
    then have "filter (\<lambda>x. in_range (fst x) t) ts = []"
      by (auto simp: filter_empty_conv)
    then show ?thesis using True by simp
  next
    case False
    then show ?thesis using Cons by simp
  qed
qed

lemma short_mset_eq:
  assumes "mset xs = mset ys" "length xs \<le> 1"
  shows "xs = ys"
proof (cases xs)
  case Nil
  then show ?thesis using assms(1) by simp
next
  case (Cons x xs')
  then have xs: "xs = [x]" using assms(2) by simp
  then have "mset ys = {#x#}" using assms(1) by simp
  then have "ys = [x]" by (simp add: mset_single_iff_right)
  then show ?thesis using xs by simp
qed

lemma getitem_scan_perm:
  assumes "non_overlapping (map fst ts)" "mset ts' = mset ts"
  shows "getitem_scan ts' dflt t = getitem_scan ts dflt t"
proof -
  let ?P = "\<lambda>x. in_range (fst x) t"
  have "mset (filter ?P ts) = mset (filter ?P ts')"
    using assms(2) by simp
  then have "filter ?P ts = filter ?P ts'"
    using non_overlapping_filter[OF assms(1), of t] by (rule short_mset_eq)
  then show ?thesis
    by (simp add: getitem_scan_find find_filter)
qed

text \<open>
  C4. \<open>SparseList.__getitem__\<close> scans the (range, data, lookup) triples in order and, at
  the first range whose inclusive bounds hold the tick, returns \<open>data[lookup(tick)]\<close>,
  or the default when the lookup answers \<open>None\<close>; when no range holds the tick it
  returns the default. When the ranges do not overlap, a SparseList built from the same
  triples in another order returns the same for every tick.
\<close>

theorem SparseList_getitem_correct:
  "SparseList_getitem s t =
     (case find (\<lambda>x. fst (fst x) \<le> t \<and> t \<le> snd (fst x)) (triples s) of
        None \<Rightarrow> Inr (default_val s)
      | Some (data_range, datum, lookup) \<Rightarrow>
          (case lookup t of
             None \<Rightarrow> Inr (default_val s)
           | Some idx \<Rightarrow> py_index datum idx)) \<and>
   (non_overlapping (map fst (triples s)) \<and> mset (triples s') = mset (triples s) \<and>
    default_val s' = default_val s
      \<longrightarrow> SparseList_getitem s' t = SparseList_getitem s t)"
proof (intro conjI impI)
  show "SparseList_getitem s t =
     (case find (\<lambda>x. fst (fst x) \<le> t \<and> t \<le> snd (fst x)) (triples s) of
        None \<Rightarrow> Inr (default_val s)
      | Some (data_range, datum, lookup) \<Rightarrow>
          (case lookup t of
             None \<Rightarrow> Inr (default_val s)
           | Some idx \<Rightarrow> py_index datum idx))"
    using getitem_scan_find[of "triples s" "default_val s" t]
    by (simp add: SparseList_getitem_def in_range_def)
next
  assume "non_overlapping (map fst (triples s)) \<and> mset (triples s') = mset (triples s) \<and>
    default_val s' = default_val s"
  then show "SparseList_getitem s' t = SparseList_getitem s t"
    by (simp add: SparseList_getitem_def getitem_scan_perm)
qed

theorem SparseList_getitem_correct_witness:
  "non_overlapping (map fst (triples fixture_sparse)) \<and>
   mset (triples fixture_sparse_swapped) = mset (triples fixture_sparse) \<and>
   default_val fixture_sparse_swapped = default_val fixture_sparse \<and>
   SparseList_getitem fixture_sparse_swapped 103 = Inr (Fin 3) \<and>
   SparseList_getitem fixture_sparse 103 = Inr (Fin 3) \<and>
   SparseList_getitem fixture_sparse 102 = Inr (Fin 0) \<and>
   SparseList_getitem fixture_sparse 50 = Inr (Fin 0) \<and>
   SparseList_getitem fixture_sparse 1 = Inr (Fin 8)"
proof -
  have no: "non_overlapping (map fst (triples fixture_sparse))"
    by (simp add: triples_def fixture_sparse_def ranges_disjoint_def)
  have perm: "mset (triples fixture_sparse_swapped) = mset (triples fixture_sparse)"
    by (simp add: triples_def fixture_sparse_def fixture_sparse_swapped_def)
  have dflt: "default_val fixture_sparse_swapped = default_val fixture_sparse"
    by (simp add: fixture_sparse_def fixture_sparse_swapped_def)
  have vals: "SparseList_getitem fixture_sparse 103 = Inr (Fin 3)"
    "SparseList_getitem fixture_sparse 102 = Inr (Fin 0)"
    "SparseList_getitem fixture_sparse 50 = Inr (Fin 0)"
    "SparseList_getitem fixture_sparse 1 = Inr (Fin 8)"
    by (simp_all add: SparseList_getitem_def triples_def fixture_sparse_def tick_idx_def
        fixture_connection_def py_index_def)
  have "SparseList_getitem fixture_sparse_swapped 103 = SparseList_getitem fixture_sparse 103"
    using SparseList_getitem_correct[of fixture_sparse 103 fixture_sparse_swapped] no perm dflt
    by blast
  then show ?thesis
    using no perm dflt vals by simp
qed

section \<open>The VTEC views\<close>

lemma get_filtered_vtecs_loop_eq:
  "get_filtered_vtecs_loop M vtecs bpfilter cs (rs, ds, ls) =
     (case collect (filtered_vtecs0 vtecs bpfilter) (filter (long_enough M) cs) of
        Inl e \<Rightarrow> Inl e
      | Inr fs \<Rightarrow>
          Inr (rs @ map (\<lambda>con. (tick_start con, tick_end con)) (filter (long_enough M) cs),
               ds @ fs,
               ls @ map tick_idx (filter (long_enough M) cs)))"
proof (induction cs arbitrary: rs ds ls)
  case Nil
  then show ?case by simp
next
  case (Cons con cs)
  show ?case
  proof (cases "long_enough M con")
    case False
    then have short: "idx_end con - idx_start con < M"
      by (simp add: long_enough_def)
    have f: "filter (long_enough M) (con # cs) = filter (long_enough M) cs"
      using False by simp
    show ?thesis
      unfolding f using Cons.IH short by simp
  next
    case True
    then have long: "\<not> idx_end con - idx_start con < M"
      by (simp add: long_enough_def)
    have f: "filter (long_enough M) (con # cs) = con # filter (long_enough M) cs"
      using True by simp
    show ?thesis
      unfolding f using Cons.IH long
      by (auto simp: filtered_vtecs0_def split: sum.splits)
  qed
qed

lemma get_filtered_vtecs_eq:
  "get_filtered_vtecs M vtecs bpfilter cs =
     (case collect (filtered_vtecs0 vtecs bpfilter) (filter (long_enough M) cs) of
        Inl e \<Rightarrow> Inl e
      | Inr dat \<Rightarrow>
          SparseList_init (map (\<lambda>con. (tick_start con, tick_end con)) (filter (long_enough M) cs)) dat
            (map tick_idx (filter (long_enough M) cs)) (Fin 0))"
  by (simp add: get_filtered_vtecs_def get_filtered_vtecs_loop_eq split: sum.splits)

lemma get_filtered_vtecs_all_short:
  assumes "\<forall>con \<in> set cs. idx_end con - idx_start con < M"
  shows "get_filtered_vtecs M vtecs bpfilter cs = Inl ValueError"
proof -
  have "filter (long_enough M) cs = []"
    using assms by (auto simp: filter_empty_conv long_enough_def)
  then show ?thesis
    by (simp add: get_filtered_vtecs_eq SparseList_init_def)
qed

lemma observations_length:
  assumes init: "Connection_init scn st p i j = Inr c" and idx: "0 \<le> i" "i \<le> j"
    and obs: "observations c = Inr obs"
  shows "int (length obs) = idx_end c - idx_start c + 1"
proof -
  obtain arr r_end where
    ie: "py_index arr j = Inr r_end" and
    o: "observations c = Inr (py_slice arr i (j + 1))"
    using Connection_init_obs[OF init] by blast
  have j: "j < int (length arr)"
    using py_index_valid[OF _ ie] idx by auto
  have "obs = take (nat (j + 1 - i)) (drop (nat i) arr)"
    using o obs py_slice_valid[OF idx j] by simp
  then have "int (length obs) = j + 1 - i"
    using idx j by auto
  moreover have "idx_start c = i \<and> idx_end c = j"
    using init
    by (auto simp: Connection_init_def init_missing_ticks_def Let_def split: sum.splits)
  ultimately show ?thesis by simp
qed

lemma fixture_long_init:
  "Connection_init fixture_scenario ''stn1'' ''G07'' 0 5 = Inr fixture_connection_long"
  by (simp add: Connection_init_def station_prn_rows_def dict_get_def fixture_scenario_def
      py_index_def init_missing_ticks_def observations_def py_slice_def slice_bound_def
      gap_idxs_def numpy_diff_def wrap_i4_def fixture_row_def upt_conv_Cons fixture_connection_long_def)

lemma fixture_long_observations:
  "observations fixture_connection_long =
     Inr (map fixture_row [200, 201, 202, 203, 204, 205])"
  by (simp add: observations_def fixture_connection_long_def fixture_scenario_def dict_get_def
      py_slice_def slice_bound_def)

text \<open>
  C1, as the code has it. \<open>get_filtered_vtecs\<close> skips exactly the member connections
  with \<open>idx_end - idx_start < BUTTER_MIN_LENGTH\<close>, asks neither the VTEC calculation nor
  the filter about them, and builds its SparseList over the others (which fails when
  none is left); \<open>get_vtecs\<close> builds its SparseList over every member connection. For
  a connection constructed over a valid index range, not being skipped is the same as
  a sample count strictly above \<open>BUTTER_MIN_LENGTH\<close>: a connection of exactly
  \<open>BUTTER_MIN_LENGTH\<close> samples is skipped too.
\<close>

theorem get_filtered_vtecs_members:
  "get_filtered_vtecs M vtecs bpfilter cs =
     (case collect (filtered_vtecs0 vtecs bpfilter) (filter (long_enough M) cs) of
        Inl e \<Rightarrow> Inl e
      | Inr dat \<Rightarrow>
          SparseList_init (map (\<lambda>con. (tick_start con, tick_end con)) (filter (long_enough M) cs))
            dat (map tick_idx (filter (long_enough M) cs)) (Fin 0)) \<and>
   get_vtecs vtecs cs =
     (case collect (vtecs0 vtecs) cs of
        Inl e \<Rightarrow> Inl e
      | Inr dat \<Rightarrow>
          SparseList_init (map (\<lambda>con. (tick_start con, tick_end con)) cs)
            dat (map tick_idx cs) (Fin 0)) \<and>
   (Connection_init scn st p i j = Inr c \<and> 0 \<le> i \<and> i \<le> j
      \<longrightarrow> (long_enough M c \<longleftrightarrow> M < sample_count c))"
proof (intro conjI impI)
  assume a: "Connection_init scn st p i j = Inr c \<and> 0 \<le> i \<and> i \<le> j"
  then obtain obs where obs: "observations c = Inr obs"
    using Connection_init_obs[of scn st p i j c] by blast
  have "int (length obs) = idx_end c - idx_start c + 1"
    using observations_length[OF _ _ _ obs] a by blast
  then show "long_enough M c \<longleftrightarrow> M < sample_count c"
    by (auto simp: long_enough_def sample_count_def obs)
qed (simp_all add: get_filtered_vtecs_eq get_vtecs_def)

theorem get_filtered_vtecs_members_witness:
  "Connection_init fixture_scenario ''stn1'' ''G05'' 0 3 = Inr fixture_connection \<and>
   sample_count fixture_connection = 4 \<and>
   \<not> long_enough 4 fixture_connection \<and> long_enough 3 fixture_connection"
proof -
  have sc: "sample_count fixture_connection = 4"
    by (simp add: sample_count_def fixture_observations)
  have "long_enough 4 fixture_connection \<longleftrightarrow> 4 < sample_count fixture_connection"
    and "long_enough 3 fixture_connection \<longleftrightarrow> 3 < sample_count fixture_connection"
    using get_filtered_vtecs_members[of _ _ _ _ fixture_scenario "''stn1''" "''G05''" 0 3
        fixture_connection] fixture_init
    by simp_all
  then show ?thesis
    using sc fixture_init by simp
qed

text \<open>
  The claim C1 as stated fails: with a minimum length of 4, the connection of four
  samples is not below the minimum, and yet it is left out of the filtered view.
\<close>

theorem get_filtered_vtecs_counterexample:
  "sample_count fixture_connection = 4 \<and>
   filter (\<lambda>con. \<not> sample_count con < 4) [fixture_connection, fixture_connection_long]
     = [fixture_connection, fixture_connection_long] \<and>
   map_sum id ranges
     (get_filtered_vtecs 4 fixture_vtecs Inr [fixture_connection, fixture_connection_long])
     = Inr [(200, 205)]"
proof (intro conjI)
  show sc: "sample_count fixture_connection = 4"
    by (simp add: sample_count_def fixture_observations)
  have "sample_count fixture_connection_long = 6"
    by (simp add: sample_count_def fixture_long_observations)
  with sc show "filter (\<lambda>con. \<not> sample_count con < 4)
      [fixture_connection, fixture_connection_long]
     = [fixture_connection, fixture_connection_long]"
    by simp
  have short: "idx_end fixture_connection - idx_start fixture_connection < 4"
    by (simp add: fixture_connection_def)
  have long: "\<not> idx_end fixture_connection_long - idx_start fixture_connection_long < 4"
    by (simp add: fixture_connection_long_def)
  have v: "vtecs0 fixture_vtecs fixture_connection_long =
      Inr (map (\<lambda>r. Fin (real_of_int (tick r))) (map fixture_row [200, 201, 202, 203, 204, 205]))"
    by (simp add: vtecs0_def fixture_vtecs_def fixture_long_observations)
  show "map_sum id ranges
     (get_filtered_vtecs 4 fixture_vtecs Inr [fixture_connection, fixture_connection_long])
     = Inr [(200, 205)]"
    using short long
    by (simp add: get_filtered_vtecs_def v SparseList_init_def)
      (simp add: fixture_connection_long_def)
qed

text \<open>
  C10. A SparseList cannot be built from an empty collection of ranges: its length is
  one plus the greatest range end, computed when it is built, and the maximum of no
  ranges raises \<open>ValueError\<close>. So \<open>get_filtered_vtecs\<close> raises when it skips every
  member connection, as it does when each has \<open>idx_end - idx_start\<close> (one less than
  its sample count) below the minimum filtering length.
\<close>

theorem SparseList_init_needs_range:
  "SparseList_init [] dat lookups dflt = Inl ValueError \<and>
   (SparseList_init rs dat lookups dflt = Inr s
      \<longrightarrow> rs \<noteq> [] \<and> max_val s = Max (set (map snd rs)) \<and> SparseList_len s = max_val s + 1) \<and>
   ((\<forall>con \<in> set cs. idx_end con - idx_start con < M)
      \<longrightarrow> get_filtered_vtecs M vtecs bpfilter cs = Inl ValueError)"
  using get_filtered_vtecs_all_short[of cs M vtecs bpfilter]
  by (auto simp: SparseList_init_def SparseList_len_def split: if_splits)

theorem SparseList_init_needs_range_witness:
  "SparseList_init [(0, 5), (7, 9 :: int)] [[Fin 1], [Fin 2]] [Some, Some] (Fin 0)
     = Inr \<lparr>ranges = [(0, 5), (7, 9)], data = [[Fin 1], [Fin 2]], tick_lookup = [Some, Some],
            default_val = Fin 0, max_val = 9\<rparr> \<and>
   SparseList_len \<lparr>ranges = [(0, 5), (7, 9)], data = [[Fin 1], [Fin 2]],
     tick_lookup = [Some, Some], default_val = Fin 0, max_val = 9\<rparr> = 10 \<and>
   idx_end fixture_connection - idx_start fixture_connection < 4 \<and>
   get_filtered_vtecs 4 fixture_vtecs Inr [fixture_connection] = Inl ValueError"
proof -
  have i: "SparseList_init [(0, 5), (7, 9 :: int)] [[Fin 1], [Fin 2]] [Some, Some] (Fin 0)
     = Inr \<lparr>ranges = [(0, 5), (7, 9)], data = [[Fin 1], [Fin 2]], tick_lookup = [Some, Some],
            default_val = Fin 0, max_val = 9\<rparr>"
    by (simp add: SparseList_init_def)
  have short: "\<forall>con \<in> set [fixture_connection]. idx_end con - idx_start con < 4"
    by (simp add: fixture_connection_def)
  show ?thesis
    using SparseList_init_needs_range[where rs = "[(0, 5), (7, 9)]"
        and dat = "[[Fin 1], [Fin 2]]" and lookups = "[Some, Some]" and dflt = "Fin 0"
        and cs = "[fixture_connection]" and M = 4 and vtecs = fixture_vtecs and bpfilter = Inr]
      i short
    by simp
qed

section \<open>Carrier corrections\<close>

lemma observations_frame:
  "scenario c' = scenario c \<Longrightarrow> station c' = station c \<Longrightarrow> prn c' = prn c \<Longrightarrow>
   idx_start c' = idx_start c \<Longrightarrow> idx_end c' = idx_end c \<Longrightarrow>
   observations c' = observations c"
  by (auto simp: observations_def split: sum.splits)

lemma fixture_bands_init:
  "Connection_init fixture_scenario ''stn1'' ''G09'' 0 1 = Inr fixture_connection_bands"
  by (simp add: Connection_init_def station_prn_rows_def dict_get_def fixture_scenario_def
      py_index_def init_missing_ticks_def observations_def py_slice_def slice_bound_def
      gap_idxs_def numpy_diff_def wrap_i4_def fixture_row_def fixture_band_row_def upt_conv_Cons
      fixture_connection_bands_def)

lemma fixture_bands_observations:
  "observations fixture_connection_bands =
     Inr [fixture_band_row 300 10 13 4 1, fixture_band_row 301 20 25 6 2]"
  by (simp add: observations_def fixture_connection_bands_def fixture_scenario_def dict_get_def
      py_slice_def slice_bound_def)

text \<open>
  C5. With both integer ambiguities set, and the connection's frequencies \<open>(f1, f2)\<close>
  known and not zero, \<open>carrier_correction_meters\<close> returns the speed of light times
  \<open>(n_chan2 / f2 - n_chan1 / f1)\<close>; otherwise, with \<open>offset\<close> set, it returns \<open>offset\<close>;
  with neither mechanism computed it fails with an assertion error.
\<close>

theorem carrier_correction_meters_cases:
  "(n_chan1 c = Some n1 \<and> n_chan2 c = Some n2 \<and>
    frequencies get_frequencies c = Inr (f1, f2) \<and> f1 \<noteq> 0 \<and> f2 \<noteq> 0
      \<longrightarrow> carrier_correction_meters get_frequencies c
            = Inr (Fin (C * (real_of_int n2 / f2 - real_of_int n1 / f1)))) \<and>
   ((n_chan1 c = None \<or> n_chan2 c = None) \<and> offset c = Some off
      \<longrightarrow> carrier_correction_meters get_frequencies c = Inr off) \<and>
   ((n_chan1 c = None \<or> n_chan2 c = None) \<and> offset c = None
      \<longrightarrow> carrier_correction_meters get_frequencies c = Inl AssertionError)"
  by (auto simp: carrier_correction_meters_def)

theorem carrier_correction_meters_cases_witness:
  "frequencies fixture_frequencies (fixture_connection\<lparr>n_chan1 := Some 3, n_chan2 := Some 5\<rparr>)
     = Inr (299792458, 149896229) \<and>
   carrier_correction_meters fixture_frequencies
       (fixture_connection\<lparr>n_chan1 := Some 3, n_chan2 := Some 5\<rparr>)
     = Inr (Fin 7) \<and>
   carrier_correction_meters fixture_frequencies
       (fixture_connection\<lparr>n_chan1 := Some 3, offset := Some (Fin 9)\<rparr>) = Inr (Fin 9) \<and>
   carrier_correction_meters fixture_frequencies fixture_connection = Inl AssertionError"
proof -
  have obs: "observations (fixture_connection\<lparr>n_chan1 := Some 3, n_chan2 := Some 5\<rparr>)
      = Inr (map fixture_row [100, 101, 103, 104])"
    using fixture_observations
      observations_frame[of "fixture_connection\<lparr>n_chan1 := Some 3, n_chan2 := Some 5\<rparr>"
        fixture_connection]
    by simp
  have f: "frequencies fixture_frequencies (fixture_connection\<lparr>n_chan1 := Some 3, n_chan2 := Some 5\<rparr>)
     = Inr (299792458, 149896229)"
    by (simp add: frequencies_def obs fixture_frequencies_def)
  have n: "n_chan1 fixture_connection = None" "n_chan2 fixture_connection = None"
    "offset fixture_connection = None"
    by (simp_all add: fixture_connection_def)
  have v: "C * (real_of_int 5 / 149896229 - real_of_int 3 / 299792458) = 7"
    by (simp add: C_def)
  show ?thesis
    using carrier_correction_meters_cases[of
        "fixture_connection\<lparr>n_chan1 := Some 3, n_chan2 := Some 5\<rparr>" 3 5
        fixture_frequencies 299792458 149896229 "Fin 9"]
      carrier_correction_meters_cases[of
        "fixture_connection\<lparr>n_chan1 := Some 3, offset := Some (Fin 9)\<rparr>" 3 5
        fixture_frequencies 299792458 149896229 "Fin 9"]
      carrier_correction_meters_cases[of fixture_connection 3 5
        fixture_frequencies 299792458 149896229 "Fin 9"]
      f n v
    by simp
qed

lemma not_isnan: "\<not> isnan x \<longleftrightarrow> x = Fin (fin x)"
  by (cases x) auto

lemma numpy_sum_Fin_acc:
  "fold (\<lambda>x acc. f8_add acc x) (map Fin xs) (Fin a) = Fin (a + sum_list xs)"
  by (induction xs arbitrary: a) auto

lemma numpy_sum_Fin: "numpy_sum (map Fin xs) = Fin (sum_list xs)"
  by (simp add: numpy_sum_def numpy_sum_Fin_acc)

lemma numpy_mean_Fin: "xs \<noteq> [] \<Longrightarrow> numpy_mean (map Fin xs) = Fin (spec_mean xs)"
  by (simp add: numpy_mean_def numpy_sum_Fin spec_mean_def)

lemma spec_mean_nonneg: "(\<forall>x \<in> set xs. 0 \<le> x) \<Longrightarrow> 0 \<le> spec_mean xs"
  by (simp add: spec_mean_def sum_list_nonneg)

lemma numpy_std_Fin:
  assumes ne: "xs \<noteq> []"
  shows "numpy_std (map Fin xs) = Fin (spec_std xs)"
proof -
  let ?sq = "map (\<lambda>x. (x - spec_mean xs)\<^sup>2) xs"
  have inner: "map (\<lambda>x. let d = f8_abs (f8_sub x (numpy_mean (map Fin xs))) in f8_mul d d) (map Fin xs)
      = map Fin ?sq"
    by (simp add: numpy_mean_Fin[OF ne] Let_def power2_eq_square)
  have nonneg: "0 \<le> spec_mean ?sq"
    by (rule spec_mean_nonneg) auto
  have "?sq \<noteq> []" using ne by simp
  then have m: "numpy_mean (map Fin ?sq) = Fin (spec_mean ?sq)"
    by (rule numpy_mean_Fin)
  have "numpy_std (map Fin xs) = f8_sqrt (numpy_mean (map Fin ?sq))"
    by (simp only: numpy_std_def inner)
  also have "\<dots> = Fin (sqrt (spec_mean ?sq))"
    using nonneg by (simp only: m f8_sqrt.simps) simp
  finally show ?thesis
    by (simp only: spec_std_def)
qed

lemma difference_samples:
  "map2 f8_sub (map2 f8_sub (map C2C obs) (map C1C obs))
     (map (f8_mul (Fin C))
        (map2 f8_sub (map (\<lambda>x. f8_div x (Fin f1)) (map L1C obs))
                     (map (\<lambda>x. f8_div x (Fin f2)) (map L2C obs))))
   = map (sample_residual f1 f2) obs"
  by (induction obs) (simp_all add: sample_residual_def)

lemma sample_residual_Fin:
  assumes "\<forall>r \<in> set obs. finite_bands r" "f1 \<noteq> 0" "f2 \<noteq> 0"
  shows "map (sample_residual f1 f2) obs = map Fin (map (spec_residual f1 f2) obs)"
  using assms
proof (induction obs)
  case Nil
  then show ?case by simp
next
  case (Cons r obs)
  have "finite_bands r" using Cons.prems by simp
  then obtain c1 c2 l1 l2 where "C1C r = Fin c1" "C2C r = Fin c2" "L1C r = Fin l1" "L2C r = Fin l2"
    unfolding finite_bands_def not_isnan by blast
  then show ?case
    using Cons by (simp add: spec_residual_def sample_residual_def)
qed

text \<open>
  C6. For a connection with frequencies \<open>(f1, f2)\<close>, \<open>correct_ambiguities\<close> sets \<open>offset\<close>
  to the mean over the samples of (secondary code - primary code) - speed of light
  times (primary carrier / f1 - secondary carrier / f2), and \<open>offset_error\<close> to the
  standard deviation of these residuals; nothing else of the connection changes and
  no further sign is applied. For finite measurements, frequencies that are not zero
  and at least one sample, these are the mean and the standard deviation of the real
  numbers.
\<close>

theorem correct_ambiguities_offset:
  assumes fr: "frequencies get_frequencies c = Inr (f1, f2)"
    and obs: "observations c = Inr obs"
  shows "correct_ambiguities get_frequencies c =
           Inr (c\<lparr>offset := Some (numpy_mean (map (sample_residual f1 f2) obs)),
                  offset_error := Some (numpy_std (map (sample_residual f1 f2) obs))\<rparr>) \<and>
         (f1 \<noteq> 0 \<and> f2 \<noteq> 0 \<and> obs \<noteq> [] \<and> (\<forall>r \<in> set obs. finite_bands r) \<longrightarrow>
            numpy_mean (map (sample_residual f1 f2) obs)
              = Fin (spec_mean (map (spec_residual f1 f2) obs)) \<and>
            numpy_std (map (sample_residual f1 f2) obs)
              = Fin (spec_std (map (spec_residual f1 f2) obs)))"
proof (intro conjI impI)
  let ?difference =
    "map2 f8_sub (map2 f8_sub (map C2C obs) (map C1C obs))
       (map (f8_mul (Fin C))
          (map2 f8_sub (map (\<lambda>x. f8_div x (Fin f1)) (map L1C obs))
                       (map (\<lambda>x. f8_div x (Fin f2)) (map L2C obs))))"
  have run: "correct_ambiguities get_frequencies c =
      Inr (c\<lparr>offset := Some (numpy_mean ?difference),
             offset_error := Some (numpy_std ?difference)\<rparr>)"
    by (simp only: correct_ambiguities_def correct_ambiguities_avg_def fr obs
        sum.case prod.case Let_def)
  show "correct_ambiguities get_frequencies c =
           Inr (c\<lparr>offset := Some (numpy_mean (map (sample_residual f1 f2) obs)),
                  offset_error := Some (numpy_std (map (sample_residual f1 f2) obs))\<rparr>)"
    by (simp only: run difference_samples)
next
  assume a: "f1 \<noteq> 0 \<and> f2 \<noteq> 0 \<and> obs \<noteq> [] \<and> (\<forall>r \<in> set obs. finite_bands r)"
  then have ne: "map (spec_residual f1 f2) obs \<noteq> []" by simp
  have eq: "map (sample_residual f1 f2) obs = map Fin (map (spec_residual f1 f2) obs)"
    using a by (intro sample_residual_Fin) auto
  show "numpy_mean (map (sample_residual f1 f2) obs)
      = Fin (spec_mean (map (spec_residual f1 f2) obs))"
    by (simp only: eq numpy_mean_Fin[OF ne])
  show "numpy_std (map (sample_residual f1 f2) obs)
      = Fin (spec_std (map (spec_residual f1 f2) obs))"
    by (simp only: eq numpy_std_Fin[OF ne])
qed

theorem correct_ambiguities_offset_witness:
  "frequencies fixture_frequencies fixture_connection_bands = Inr (299792458, 149896229) \<and>
   observations fixture_connection_bands
     = Inr [fixture_band_row 300 10 13 4 1, fixture_band_row 301 20 25 6 2] \<and>
   finite_bands (fixture_band_row 300 10 13 4 1) \<and>
   finite_bands (fixture_band_row 301 20 25 6 2) \<and>
   map (spec_residual 299792458 149896229)
     [fixture_band_row 300 10 13 4 1, fixture_band_row 301 20 25 6 2] = [1, 3] \<and>
   correct_ambiguities fixture_frequencies fixture_connection_bands
     = Inr (fixture_connection_bands\<lparr>offset := Some (Fin 2), offset_error := Some (Fin 1)\<rparr>)"
proof -
  let ?obs = "[fixture_band_row 300 10 13 4 1, fixture_band_row 301 20 25 6 2]"
  have fr: "frequencies fixture_frequencies fixture_connection_bands
      = Inr (299792458, 149896229)"
    by (simp add: frequencies_def fixture_bands_observations fixture_frequencies_def)
  have fb: "finite_bands (fixture_band_row 300 10 13 4 1)"
    "finite_bands (fixture_band_row 301 20 25 6 2)"
    by (simp_all add: finite_bands_def fixture_band_row_def)
  then have all: "\<forall>r \<in> set ?obs. finite_bands r" by simp
  have res: "map (spec_residual 299792458 149896229) ?obs = [1, 3]"
    by (simp add: spec_residual_def fixture_band_row_def C_def)
  have m: "spec_mean [1, 3] = 2" and sd: "spec_std [1, 3] = 1"
    by (simp_all add: spec_std_def spec_mean_def)
  have "correct_ambiguities fixture_frequencies fixture_connection_bands
     = Inr (fixture_connection_bands\<lparr>offset := Some (Fin 2), offset_error := Some (Fin 1)\<rparr>)"
    using correct_ambiguities_offset[OF fr fixture_bands_observations] all
    unfolding res m sd by simp
  then show ?thesis
    using fr fixture_bands_observations fb res by simp
qed

section \<open>Pierce points\<close>

lemma ion_locs_loop_eq:
  "length scale = i + length ps \<Longrightarrow>
   ion_locs_loop i ps scale =
     take i scale @
     map (\<lambda>(x, y). let smallest = (if f8_less (f8_abs x) (f8_abs y) then x else y)
                     in (smallest, smallest, smallest)) ps"
proof (induction ps arbitrary: i scale)
  case Nil
  then show ?case by simp
next
  case (Cons p ps)
  obtain x y where p: "p = (x, y)" by (cases p)
  let ?v = "let smallest = (if f8_less (f8_abs x) (f8_abs y) then x else y)
            in (smallest, smallest, smallest)"
  have len: "length (scale[i := ?v]) = Suc i + length ps"
    using Cons.prems by simp
  have i: "i < length scale" using Cons.prems by simp
  have "ion_locs_loop i (p # ps) scale = ion_locs_loop (Suc i) ps (scale[i := ?v])"
    by (simp add: p Let_def)
  also have "\<dots> = take (Suc i) (scale[i := ?v]) @
     map (\<lambda>(x, y). let smallest = (if f8_less (f8_abs x) (f8_abs y) then x else y)
                     in (smallest, smallest, smallest)) ps"
    by (rule Cons.IH[OF len])
  also have "take (Suc i) (scale[i := ?v]) = take i scale @ [?v]"
    using i by (simp add: take_Suc_conv_app_nth)
  finally show ?case by (simp add: p)
qed

lemma ion_locs_samples: "ion_locs rec_pos sat_pos' ionh = map (ion_sample rec_pos ionh) sat_pos'"
proof -
  let ?a = "map (quad_a rec_pos) sat_pos'" and ?b = "map (quad_b rec_pos) sat_pos'"
  let ?common = "map2 (\<lambda>a b. f8_div (f8_sqrt (Fin (b\<^sup>2 - 4 * a * quad_c rec_pos ionh))) (Fin (2 * a))) ?a ?b"
  let ?b_scaled = "map2 (\<lambda>a b. f8_div (Fin (- b)) (Fin (2 * a))) ?a ?b"
  have "length (replicate (length sat_pos') (Fin 0, Fin 0, Fin 0))
      = 0 + length (zip (map2 f8_add ?b_scaled ?common) (map2 f8_sub ?b_scaled ?common))"
    by simp
  note loop = ion_locs_loop_eq[OF this]
  show ?thesis
    unfolding ion_locs_def Let_def
    apply (fold quad_a_def quad_b_def quad_c_def)
    apply (subst loop)
    apply (simp add: ion_sample_def Let_def zip_map_map zip_same_conv_map list_eq_iff_nth_eq)
    done
qed

lemma ion_sample_real:
  assumes "real_solution rec_pos ionh s"
  shows "ion_sample rec_pos ionh s = f8vec (ion_point rec_pos ionh s)"
proof -
  have a: "quad_a rec_pos s \<noteq> 0" and d: "0 \<le> discriminant rec_pos ionh s"
    using assms by (simp_all add: real_solution_def)
  have d': "\<not> (quad_b rec_pos s)\<^sup>2 - 4 * quad_a rec_pos s * quad_c rec_pos ionh < 0"
    using d by (simp add: discriminant_def)
  show ?thesis
    using a d'
    by (cases rec_pos; cases s)
      (simp add: ion_sample_def ion_point_def ion_scale_def root_x_def root_y_def
        discriminant_def Let_def)
qed

lemma ion_sample_nan:
  assumes "\<not> real_solution rec_pos ionh s"
  shows "ion_sample rec_pos ionh s = (NaN, NaN, NaN)"
proof (cases "quad_a rec_pos s = 0")
  case True
  then show ?thesis
    by (cases rec_pos; cases s) (simp add: ion_sample_def Let_def)
next
  case False
  then have "(quad_b rec_pos s)\<^sup>2 - 4 * quad_a rec_pos s * quad_c rec_pos ionh < 0"
    using assms by (simp add: real_solution_def discriminant_def)
  then show ?thesis
    by (cases rec_pos; cases s) (simp add: ion_sample_def Let_def)
qed

lemma ion_locs_map:
  "ion_locs rec_pos sat_pos' ionh =
     map (\<lambda>s. if real_solution rec_pos ionh s then f8vec (ion_point rec_pos ionh s)
               else (NaN, NaN, NaN)) sat_pos'"
  by (simp add: ion_locs_samples ion_sample_real ion_sample_nan)

lemma quad_root:
  fixes a b c :: real
  assumes a: "a \<noteq> 0" and d: "0 \<le> b\<^sup>2 - 4 * a * c"
  shows "a * (- b / (2 * a) + sqrt (b\<^sup>2 - 4 * a * c) / (2 * a))\<^sup>2
           + b * (- b / (2 * a) + sqrt (b\<^sup>2 - 4 * a * c) / (2 * a)) + c = 0"
    and "a * (- b / (2 * a) - sqrt (b\<^sup>2 - 4 * a * c) / (2 * a))\<^sup>2
           + b * (- b / (2 * a) - sqrt (b\<^sup>2 - 4 * a * c) / (2 * a)) + c = 0"
proof -
  define q where "q = sqrt (b\<^sup>2 - 4 * a * c)"
  have q2: "q * q = b * b - 4 * a * c"
    using d by (simp add: q_def power2_eq_square[symmetric])
  have "a * (- b / (2 * a) + q / (2 * a))\<^sup>2 + b * (- b / (2 * a) + q / (2 * a)) + c
      = (q * q - (b * b - 4 * a * c)) / (4 * a)"
    using a by (simp add: field_simps power2_eq_square)
  then show "a * (- b / (2 * a) + sqrt (b\<^sup>2 - 4 * a * c) / (2 * a))\<^sup>2
           + b * (- b / (2 * a) + sqrt (b\<^sup>2 - 4 * a * c) / (2 * a)) + c = 0"
    unfolding q2 q_def[symmetric] by simp
  have "a * (- b / (2 * a) - q / (2 * a))\<^sup>2 + b * (- b / (2 * a) - q / (2 * a)) + c
      = (q * q - (b * b - 4 * a * c)) / (4 * a)"
    using a by (simp add: field_simps power2_eq_square)
  then show "a * (- b / (2 * a) - sqrt (b\<^sup>2 - 4 * a * c) / (2 * a))\<^sup>2
           + b * (- b / (2 * a) - sqrt (b\<^sup>2 - 4 * a * c) / (2 * a)) + c = 0"
    unfolding q2 q_def[symmetric] by simp
qed

lemma roots_solve:
  assumes "quad_a rec_pos s \<noteq> 0" and "0 \<le> discriminant rec_pos ionh s"
  shows "quad_a rec_pos s * (root_x rec_pos ionh s)\<^sup>2
           + quad_b rec_pos s * root_x rec_pos ionh s + quad_c rec_pos ionh = 0"
    and "quad_a rec_pos s * (root_y rec_pos ionh s)\<^sup>2
           + quad_b rec_pos s * root_y rec_pos ionh s + quad_c rec_pos ionh = 0"
  using quad_root[OF assms(1) assms(2)[unfolded discriminant_def]]
  by (simp_all add: root_x_def root_y_def discriminant_def)

lemma ion_scale_root:
  assumes "quad_a rec_pos s \<noteq> 0" and "0 \<le> discriminant rec_pos ionh s"
  shows "quad_a rec_pos s * (ion_scale rec_pos ionh s)\<^sup>2
           + quad_b rec_pos s * ion_scale rec_pos ionh s + quad_c rec_pos ionh = 0"
  using roots_solve[OF assms] by (simp add: ion_scale_def)

lemma ion_scale_smallest:
  "(ion_scale rec_pos ionh s = root_x rec_pos ionh s \<or>
    ion_scale rec_pos ionh s = root_y rec_pos ionh s) \<and>
   \<bar>ion_scale rec_pos ionh s\<bar> \<le> \<bar>root_x rec_pos ionh s\<bar> \<and>
   \<bar>ion_scale rec_pos ionh s\<bar> \<le> \<bar>root_y rec_pos ionh s\<bar>"
  by (simp add: ion_scale_def)

lemma point_norm_sq:
  "vsum (vmul (vadd rec_pos (vmul (vsub s rec_pos) (t, t, t)))
              (vadd rec_pos (vmul (vsub s rec_pos) (t, t, t))))
     = quad_a rec_pos s * t\<^sup>2 + quad_b rec_pos s * t + quad_c rec_pos ionh + ionh\<^sup>2"
  by (cases rec_pos; cases s)
    (simp add: quad_a_def quad_b_def quad_c_def power2_eq_square algebra_simps)

lemma ion_point_on_shell:
  assumes "quad_a rec_pos s \<noteq> 0" and "0 \<le> discriminant rec_pos ionh s"
  shows "vnorm (ion_point rec_pos ionh s) = \<bar>ionh\<bar>"
  using ion_scale_root[OF assms]
  by (simp add: vnorm_def ion_point_def point_norm_sq[where ionh = ionh])

lemma near_root_between:
  fixes a b c :: real
  assumes a: "0 < a" and c: "c < 0" and s: "0 < a + b + c" and b: "0 < b"
  defines "x \<equiv> - b / (2 * a) + sqrt (b\<^sup>2 - 4 * a * c) / (2 * a)"
    and "y \<equiv> - b / (2 * a) - sqrt (b\<^sup>2 - 4 * a * c) / (2 * a)"
  shows "\<bar>x\<bar> < \<bar>y\<bar>" and "0 < x" and "x < 1"
proof -
  define q where "q = sqrt (b\<^sup>2 - 4 * a * c)"
  have ac: "a * c < 0" using a c by (simp add: mult_pos_neg)
  then have d: "b\<^sup>2 < b\<^sup>2 - 4 * a * c" by simp
  have nn: "0 \<le> b\<^sup>2 - 4 * a * c"
    using d zero_le_power2[of b] by linarith
  then have q0: "0 \<le> q" by (simp add: q_def)
  have q2: "q\<^sup>2 = b\<^sup>2 - 4 * a * c"
    using nn by (simp add: q_def)
  have bq: "b < q"
    using d q0 unfolding q2[symmetric] by (rule_tac power2_less_imp_less) auto
  have "q\<^sup>2 < (2 * a + b)\<^sup>2"
  proof -
    have "(2 * a + b)\<^sup>2 - q\<^sup>2 = 4 * a * (a + b + c)"
      unfolding q2 by (simp add: power2_eq_square algebra_simps)
    moreover have "0 < 4 * a * (a + b + c)" using a s by simp
    ultimately show ?thesis by linarith
  qed
  moreover have "0 \<le> 2 * a + b" using a b by simp
  ultimately have q_lt: "q < 2 * a + b" by (rule power2_less_imp_less)
  have x: "x = (q - b) / (2 * a)" and y: "y = - (q + b) / (2 * a)"
    using a by (simp_all add: x_def y_def q_def field_simps)
  show "0 < x" using bq a by (simp add: x)
  show "x < 1" using q_lt a by (simp add: x field_simps)
  have "y < 0" using q0 b a by (simp add: y field_simps)
  then show "\<bar>x\<bar> < \<bar>y\<bar>"
    using \<open>0 < x\<close> a b by (simp add: x y field_simps)
qed


lemma vnorm_sq: "(vnorm v)\<^sup>2 = vsum (vmul v v)"
  by (cases v) (simp add: vnorm_def)

lemma vnorm_nonneg: "0 \<le> vnorm v"
  by (cases v) (simp add: vnorm_def)

lemma ion_scale_between:
  assumes inside: "vnorm rec_pos < ionh" and beyond: "ionh < vnorm s"
    and above: "0 < quad_b rec_pos s"
  shows "0 < ion_scale rec_pos ionh s \<and> ion_scale rec_pos ionh s < 1"
proof -
  have ionh: "0 \<le> ionh" using vnorm_nonneg[of rec_pos] inside by linarith
  have "(vnorm rec_pos)\<^sup>2 < ionh\<^sup>2"
    using inside vnorm_nonneg[of rec_pos] by (intro power_strict_mono) auto
  then have c: "quad_c rec_pos ionh < 0"
    by (simp add: quad_c_def vnorm_sq)
  have "ionh\<^sup>2 < (vnorm s)\<^sup>2"
    using beyond ionh by (intro power_strict_mono) auto
  moreover have "vsum (vmul s s)
      = quad_a rec_pos s * 1\<^sup>2 + quad_b rec_pos s * 1 + quad_c rec_pos ionh + ionh\<^sup>2"
    using point_norm_sq[of rec_pos s 1 ionh] by (cases rec_pos; cases s) simp
  ultimately have sum: "0 < quad_a rec_pos s + quad_b rec_pos s + quad_c rec_pos ionh"
    by (simp add: vnorm_sq)
  have "0 \<le> quad_a rec_pos s"
    by (cases rec_pos; cases s) (simp add: quad_a_def)
  moreover have "quad_a rec_pos s \<noteq> 0"
  proof
    assume z: "quad_a rec_pos s = 0"
    then have "s = rec_pos"
      by (cases rec_pos; cases s)
        (simp add: quad_a_def add_nonneg_eq_0_iff)
    then have "vnorm s < ionh" using inside by simp
    with beyond show False by simp
  qed
  ultimately have a: "0 < quad_a rec_pos s" by simp
  show ?thesis
    using near_root_between[OF a c sum above]
    by (simp add: ion_scale_def root_x_def root_y_def discriminant_def)
qed

lemma vnorm_axis: "vnorm (r, 0, 0) = \<bar>r\<bar>"
  by (simp add: vnorm_def)

lemma fixture_below_quad:
  "quad_a fixture_rec fixture_sat_below = 32938137 * 32938137"
  "quad_b fixture_rec fixture_sat_below = - (2 * 32938137 * 6378137)"
  "quad_c fixture_rec 6728137 = 6378137 * 6378137 - 6728137 * 6728137"
  by (simp_all add: quad_a_def quad_b_def quad_c_def fixture_rec_def fixture_sat_below_def
      power2_eq_square)

lemma fixture_below_discriminant:
  "discriminant fixture_rec 6728137 fixture_sat_below = (2 * 32938137 * 6728137)\<^sup>2"
  unfolding discriminant_def fixture_below_quad by (simp add: power2_eq_square)

lemma fixture_below_scale:
  "ion_scale fixture_rec 6728137 fixture_sat_below = - (350000 / 32938137)"
  unfolding ion_scale_def root_x_def root_y_def fixture_below_discriminant
    fixture_below_quad real_sqrt_abs
  by simp

lemma fixture_above_quad:
  "quad_a fixture_rec fixture_sat_above = 20181863 * 20181863"
  "quad_b fixture_rec fixture_sat_above = 2 * 20181863 * 6378137"
  by (simp_all add: quad_a_def quad_b_def fixture_rec_def fixture_sat_above_def
      power2_eq_square)

lemma fixture_above_discriminant:
  "discriminant fixture_rec 6728137 fixture_sat_above = (2 * 20181863 * 6728137)\<^sup>2"
  unfolding discriminant_def fixture_above_quad fixture_below_quad(3)
  by (simp add: power2_eq_square)

lemma fixture_above_scale:
  "ion_scale fixture_rec 6728137 fixture_sat_above = 350000 / 20181863"
  unfolding ion_scale_def root_x_def root_y_def fixture_above_discriminant
    fixture_above_quad real_sqrt_abs
  by simp

text \<open>
  C7, as the code has it. \<open>ion_locs\<close> treats each sample on its own. For a sample
  with a real quadratic solution (the satellite is not at the receiver and the
  discriminant is not negative) it returns \<open>rec + (sat - rec) t\<close>, where \<open>t\<close> is the
  one of the two roots of \<open>a t\<^sup>2 + b t + c = 0\<close> with the smaller absolute value (the
  second root when both are equally large), and the returned point lies at distance
  \<open>ionh\<close> from the origin; for a sample without one it returns NaN. With the
  receiver inside the shell and the satellite beyond it, the point lies between
  receiver and satellite when in addition the satellite is above the receiver's
  horizon, \<open>(sat - rec) \<cdot> rec > 0\<close>.
\<close>

theorem ion_locs_pierce_points:
  "ion_locs rec_pos sat_pos' ionh =
     map (\<lambda>s. if real_solution rec_pos ionh s then f8vec (ion_point rec_pos ionh s)
               else (NaN, NaN, NaN)) sat_pos' \<and>
   (\<forall>s \<in> set sat_pos'. real_solution rec_pos ionh s \<longrightarrow>
      (ion_scale rec_pos ionh s = root_x rec_pos ionh s \<or>
       ion_scale rec_pos ionh s = root_y rec_pos ionh s) \<and>
      \<bar>ion_scale rec_pos ionh s\<bar> \<le> \<bar>root_x rec_pos ionh s\<bar> \<and>
      \<bar>ion_scale rec_pos ionh s\<bar> \<le> \<bar>root_y rec_pos ionh s\<bar> \<and>
      quad_a rec_pos s * (root_x rec_pos ionh s)\<^sup>2
        + quad_b rec_pos s * root_x rec_pos ionh s + quad_c rec_pos ionh = 0 \<and>
      quad_a rec_pos s * (root_y rec_pos ionh s)\<^sup>2
        + quad_b rec_pos s * root_y rec_pos ionh s + quad_c rec_pos ionh = 0 \<and>
      vnorm (ion_point rec_pos ionh s) = \<bar>ionh\<bar> \<and>
      (vnorm rec_pos < ionh \<and> ionh < vnorm s \<and> 0 < quad_b rec_pos s \<longrightarrow>
         0 < ion_scale rec_pos ionh s \<and> ion_scale rec_pos ionh s < 1))"
proof (intro conjI ballI impI)
  show "ion_locs rec_pos sat_pos' ionh =
     map (\<lambda>s. if real_solution rec_pos ionh s then f8vec (ion_point rec_pos ionh s)
               else (NaN, NaN, NaN)) sat_pos'"
    by (rule ion_locs_map)
next
  fix s assume "real_solution rec_pos ionh s"
  then have a: "quad_a rec_pos s \<noteq> 0" and d: "0 \<le> discriminant rec_pos ionh s"
    by (simp_all add: real_solution_def)
  show "ion_scale rec_pos ionh s = root_x rec_pos ionh s \<or>
       ion_scale rec_pos ionh s = root_y rec_pos ionh s"
    and "\<bar>ion_scale rec_pos ionh s\<bar> \<le> \<bar>root_x rec_pos ionh s\<bar>"
    and "\<bar>ion_scale rec_pos ionh s\<bar> \<le> \<bar>root_y rec_pos ionh s\<bar>"
    using ion_scale_smallest[of rec_pos ionh s] by blast+
  show "quad_a rec_pos s * (root_x rec_pos ionh s)\<^sup>2
        + quad_b rec_pos s * root_x rec_pos ionh s + quad_c rec_pos ionh = 0"
    and "quad_a rec_pos s * (root_y rec_pos ionh s)\<^sup>2
        + quad_b rec_pos s * root_y rec_pos ionh s + quad_c rec_pos ionh = 0"
    by (rule roots_solve[OF a d])+
  show "vnorm (ion_point rec_pos ionh s) = \<bar>ionh\<bar>"
    by (rule ion_point_on_shell[OF a d])
next
  fix s
  assume "vnorm rec_pos < ionh \<and> ionh < vnorm s \<and> 0 < quad_b rec_pos s"
  then have b: "0 < ion_scale rec_pos ionh s \<and> ion_scale rec_pos ionh s < 1"
    using ion_scale_between by blast
  show "0 < ion_scale rec_pos ionh s" "ion_scale rec_pos ionh s < 1"
    using b by simp_all
qed

theorem ion_locs_pierce_points_witness:
  "real_solution fixture_rec 6728137 fixture_sat_above \<and>
   vnorm fixture_rec < 6728137 \<and> 6728137 < vnorm fixture_sat_above \<and>
   0 < quad_b fixture_rec fixture_sat_above \<and>
   \<not> real_solution fixture_rec 6728137 fixture_rec \<and>
   ion_locs fixture_rec [fixture_sat_above, fixture_rec] 6728137
     = [(Fin 6728137, Fin 0, Fin 0), (NaN, NaN, NaN)] \<and>
   vnorm (ion_point fixture_rec 6728137 fixture_sat_above) = 6728137 \<and>
   ion_scale fixture_rec 6728137 fixture_sat_above = 350000 / 20181863 \<and>
   0 < ion_scale fixture_rec 6728137 fixture_sat_above \<and>
   ion_scale fixture_rec 6728137 fixture_sat_above < 1"
proof -
  have b: "0 < quad_b fixture_rec fixture_sat_above"
    unfolding fixture_above_quad by simp
  have r: "real_solution fixture_rec 6728137 fixture_sat_above"
    unfolding real_solution_def fixture_above_discriminant fixture_above_quad by simp
  have nr: "\<not> real_solution fixture_rec 6728137 fixture_rec"
    by (simp add: real_solution_def quad_a_def fixture_rec_def)
  have n: "vnorm fixture_rec < 6728137" "6728137 < vnorm fixture_sat_above"
    by (simp_all add: fixture_rec_def fixture_sat_above_def vnorm_axis)
  have p: "ion_point fixture_rec 6728137 fixture_sat_above = (6728137, 0, 0)"
    unfolding ion_point_def fixture_above_scale
    by (simp add: fixture_rec_def fixture_sat_above_def)
  have "fixture_sat_above \<in> set [fixture_sat_above, fixture_rec]" by simp
  then show ?thesis
    using ion_locs_pierce_points[of fixture_rec "[fixture_sat_above, fixture_rec]" 6728137]
      b r nr n
    by (simp add: p fixture_above_scale)
qed

text \<open>
  The claim C7 as stated fails for a satellite below the receiver's horizon: with the
  receiver at distance 6378137 m from the origin, the shell at 6728137 m and the
  satellite on the far side of the Earth at 26560000 m, the quadratic has a real
  solution and the returned point is on the shell, but right above the receiver and
  not between receiver and satellite.
\<close>

theorem ion_locs_counterexample:
  "vnorm fixture_rec = 6378137 \<and> vnorm fixture_rec < 6728137 \<and>
   6728137 < vnorm fixture_sat_below \<and>
   real_solution fixture_rec 6728137 fixture_sat_below \<and>
   ion_locs fixture_rec [fixture_sat_below] 6728137 = [(Fin 6728137, Fin 0, Fin 0)] \<and>
   \<not> (\<exists>t. 0 \<le> t \<and> t \<le> 1 \<and>
         (6728137, 0, 0) = vadd fixture_rec (vmul (vsub fixture_sat_below fixture_rec) (t, t, t)))"
proof (intro conjI)
  show "vnorm fixture_rec = 6378137" "vnorm fixture_rec < 6728137"
    "6728137 < vnorm fixture_sat_below"
    by (simp_all add: fixture_rec_def fixture_sat_below_def vnorm_axis)
  show r: "real_solution fixture_rec 6728137 fixture_sat_below"
    unfolding real_solution_def fixture_below_discriminant fixture_below_quad by simp
  have "ion_point fixture_rec 6728137 fixture_sat_below = (6728137, 0, 0)"
    unfolding ion_point_def fixture_below_scale
    by (simp add: fixture_rec_def fixture_sat_below_def)
  then show "ion_locs fixture_rec [fixture_sat_below] 6728137 = [(Fin 6728137, Fin 0, Fin 0)]"
    using r by (simp add: ion_locs_map)
  show "\<not> (\<exists>t. 0 \<le> t \<and> t \<le> 1 \<and>
         (6728137, 0, 0) = vadd fixture_rec (vmul (vsub fixture_sat_below fixture_rec) (t, t, t)))"
    by (auto simp: fixture_rec_def fixture_sat_below_def)
qed

section \<open>Conversion of raw observations\<close>

lemma map_of_dict_append:
  "map_of (dict_append d k v) k' =
     (if k' = k then Some ((case map_of d k of None \<Rightarrow> [] | Some vs \<Rightarrow> vs) @ [v])
      else map_of d k')"
  by (induction d k v rule: dict_append.induct) auto

lemma map_of_fold_dict_append:
  "map_of (fold (\<lambda>obs d. dict_append d (kf obs) (vf obs)) xs d) k =
     (let new = map vf (filter (\<lambda>obs. kf obs = k) xs)
      in if new = [] then map_of d k
         else Some ((case map_of d k of None \<Rightarrow> [] | Some vs \<Rightarrow> vs) @ new))"
proof (induction xs arbitrary: d)
  case Nil
  then show ?case by simp
next
  case (Cons x xs)
  show ?case
    by (simp add: Cons.IH map_of_dict_append Let_def split: option.splits)
qed

lemma map_of_map_value:
  "map_of (map (\<lambda>(key, val). (key, f val)) d) k = map_option f (map_of d k)"
  by (induction d) auto

lemma fold_nested_concat:
  "fold (\<lambda>xs d. fold f xs d) xss d = fold f (concat xss) d"
  by (induction xss arbitrary: d) auto

lemma from_raw_obs_lookup:
  "map_of (from_raw_obs raw_obs) key =
     (if key \<in> meas_prn ` set (concat raw_obs) then Some (swap_bands (converted raw_obs key))
      else None)"
proof -
  have nested: "fold (\<lambda>sat_obs d. fold (\<lambda>obs d. dict_append d (meas_prn obs) (meas_to_tuple obs)) sat_obs d) raw_obs []
      = fold (\<lambda>obs d. dict_append d (meas_prn obs) (meas_to_tuple obs)) (concat raw_obs) []"
    by (rule fold_nested_concat)
  have "filter (\<lambda>obs. meas_prn obs = key) (concat raw_obs) = [] \<longleftrightarrow>
      key \<notin> meas_prn ` set (concat raw_obs)"
    by (auto simp: filter_empty_conv)
  then show ?thesis
    unfolding from_raw_obs_def Let_def nested map_of_map_value map_of_fold_dict_append converted_def
    by (auto simp: Let_def)
qed

text \<open>
  C9. \<open>from_raw_obs\<close> gives every satellite of the batch one array. When every \<open>C2C\<close>
  of the satellite's converted rows is NaN, the array is the converted rows with
  \<open>C2C\<close> and \<open>C2P\<close> exchanged, so its \<open>C2C\<close> column holds the \<open>C2P\<close> values; otherwise
  the array is the converted rows as they are.
\<close>

theorem from_raw_obs_band_swap:
  "(key \<in> meas_prn ` set (concat raw_obs) \<longrightarrow>
      (\<exists>arr. dict_get (from_raw_obs raw_obs) key = Inr arr)) \<and>
   (dict_get (from_raw_obs raw_obs) key = Inr arr \<longrightarrow>
      (list_all (\<lambda>r. isnan (C2C r)) (converted raw_obs key) \<longrightarrow>
         arr = map (\<lambda>r. r\<lparr>C2C := C2P r, C2P := C2C r\<rparr>) (converted raw_obs key) \<and>
         map C2C arr = map C2P (converted raw_obs key) \<and>
         map C2P arr = map C2C (converted raw_obs key)) \<and>
      (\<not> list_all (\<lambda>r. isnan (C2C r)) (converted raw_obs key) \<longrightarrow>
         arr = converted raw_obs key))"
  by (auto simp: dict_get_def from_raw_obs_lookup swap_bands_def comp_def
      split: option.splits if_splits)

lemma fixture_converted:
  "converted fixture_raw_obs ''G01'' =
     [meas_to_tuple (fixture_meas ''G01'' [(''C1C'', Fin 1), (''C2P'', Fin 2)]),
      meas_to_tuple (fixture_meas ''G01'' [(''C2P'', Fin 4)])]"
  "converted fixture_raw_obs ''G02'' =
     [meas_to_tuple (fixture_meas ''G02'' [(''C2C'', Fin 3), (''C2P'', Fin 5)]),
      meas_to_tuple (fixture_meas ''G02'' [(''C2P'', Fin 6)])]"
  by (simp_all add: converted_def fixture_raw_obs_def fixture_meas_def)

theorem from_raw_obs_band_swap_witness:
  "map C2C (converted fixture_raw_obs ''G01'') = [NaN, NaN] \<and>
   map C2P (converted fixture_raw_obs ''G01'') = [Fin 2, Fin 4] \<and>
   map_sum id (map C2C) (dict_get (from_raw_obs fixture_raw_obs) ''G01'') = Inr [Fin 2, Fin 4] \<and>
   map_sum id (map C2P) (dict_get (from_raw_obs fixture_raw_obs) ''G01'') = Inr [NaN, NaN] \<and>
   map C2C (converted fixture_raw_obs ''G02'') = [Fin 3, NaN] \<and>
   dict_get (from_raw_obs fixture_raw_obs) ''G02'' = Inr (converted fixture_raw_obs ''G02'')"
proof -
  have c1: "map C2C (converted fixture_raw_obs ''G01'') = [NaN, NaN]"
    "map C2P (converted fixture_raw_obs ''G01'') = [Fin 2, Fin 4]"
    and c2: "map C2C (converted fixture_raw_obs ''G02'') = [Fin 3, NaN]"
    by (simp_all add: fixture_converted meas_to_tuple_def fixture_meas_def get_or_nan_def)
  have nan1: "list_all (\<lambda>r. isnan (C2C r)) (converted fixture_raw_obs ''G01'')"
    and nan2: "\<not> list_all (\<lambda>r. isnan (C2C r)) (converted fixture_raw_obs ''G02'')"
    by (simp_all add: fixture_converted meas_to_tuple_def fixture_meas_def get_or_nan_def)
  have k: "''G01'' \<in> meas_prn ` set (concat fixture_raw_obs)"
    "''G02'' \<in> meas_prn ` set (concat fixture_raw_obs)"
    by (simp_all add: fixture_raw_obs_def fixture_meas_def)
  obtain arr1 where a1: "dict_get (from_raw_obs fixture_raw_obs) ''G01'' = Inr arr1"
    using from_raw_obs_band_swap[of "''G01''" fixture_raw_obs] k by blast
  obtain arr2 where a2: "dict_get (from_raw_obs fixture_raw_obs) ''G02'' = Inr arr2"
    using from_raw_obs_band_swap[of "''G02''" fixture_raw_obs] k by blast
  have "map C2C arr1 = map C2P (converted fixture_raw_obs ''G01'')"
    "map C2P arr1 = map C2C (converted fixture_raw_obs ''G01'')"
    using from_raw_obs_band_swap[of "''G01''" fixture_raw_obs arr1] a1 nan1 by blast+
  moreover have "arr2 = converted fixture_raw_obs ''G02''"
    using from_raw_obs_band_swap[of "''G02''" fixture_raw_obs arr2] a2 nan2 by blast
  ultimately show ?thesis
    using a1 a2 c1 c2 by simp
qed

end
